theory Spec2Isabelle
  imports Complex_Main "HOL-Library.AList" "HOL-Library.Char_ord" "HOL-Library.List_Lexorder"
begin

section \<open>Python strings\<close>

text \<open>
  A Python \<open>str\<close> is modelled as a HOL \<open>string\<close> whose characters are the code points
  U+0000 to U+00FF. On these, \<open>lower()\<close>, the classes \<open>\w\<close> and \<open>\s\<close> of a \<open>str\<close> pattern,
  \<open>strip()\<close>, \<open>repr\<close>, \<open>in\<close>, \<open>==\<close>, \<open>join\<close>, \<open>split\<close> and the ordering of strings are
  those of Python, which works on code points and follows the Unicode character tables.
  Text with a code point beyond U+00FF is outside the model.
\<close>

text \<open>
  The letters with a lower-case form, \<open>A\<close> to \<open>Z\<close> and U+00C0 to U+00DE without the
  multiplication sign U+00D7; the lower-case form lies 32 code points above.
\<close>

definition is_upper_char :: "char \<Rightarrow> bool" where
  "is_upper_char c =
     (let n = (of_char c :: nat)
      in (65 \<le> n \<and> n \<le> 90) \<or> (192 \<le> n \<and> n \<le> 214) \<or> (216 \<le> n \<and> n \<le> 222))"

definition lower_char :: "char \<Rightarrow> char" where
  "lower_char c = (if is_upper_char c then char_of ((of_char c :: nat) + 32) else c)"

text \<open>
  The letters whose upper-case form lies 32 code points below: \<open>a\<close> to \<open>z\<close> and U+00E0 to
  U+00FE without the division sign U+00F7. The sharp s U+00DF becomes \<open>SS\<close> in upper case
  and \<open>Ss\<close> in title case. The micro sign U+00B5 and U+00FF have their upper-case forms
  beyond U+00FF: the model leaves these two as they are, so that it is exact for
  \<open>upper()\<close> and \<open>capitalize()\<close> on every text without them. The code uses both methods
  only for the wording of explanation lines.
\<close>

definition is_lower_char :: "char \<Rightarrow> bool" where
  "is_lower_char c =
     (let n = (of_char c :: nat)
      in (97 \<le> n \<and> n \<le> 122) \<or> (224 \<le> n \<and> n \<le> 246) \<or> (248 \<le> n \<and> n \<le> 254))"

definition upper_char :: "char \<Rightarrow> string" where
  "upper_char c =
     (if is_lower_char c then [char_of ((of_char c :: nat) - 32)]
      else if c = CHR 0xDF then ''SS'' else [c])"

definition title_char :: "char \<Rightarrow> string" where
  "title_char c = (if c = CHR 0xDF then ''Ss'' else upper_char c)"

text \<open>
  \<open>s.lower()\<close>, \<open>s.upper()\<close> and \<open>s.capitalize()\<close>, which puts the first character in
  title case and the others in lower case.
\<close>

definition py_lower :: "string \<Rightarrow> string" where
  "py_lower s = map lower_char s"

definition py_upper :: "string \<Rightarrow> string" where
  "py_upper s = concat (map upper_char s)"

definition py_capitalize :: "string \<Rightarrow> string" where
  "py_capitalize s = (case s of [] \<Rightarrow> [] | c # cs \<Rightarrow> title_char c @ py_lower cs)"

text \<open>
  The characters of \<open>\w\<close> in a \<open>str\<close> pattern are the underscore and the alphanumeric
  characters (\<open>str.isalnum\<close>): the digits and letters of ASCII, the ordinal indicators
  U+00AA and U+00BA, the superscript digits U+00B2, U+00B3 and U+00B9, the micro sign
  U+00B5, the fractions U+00BC to U+00BE, and the letters U+00C0 to U+00FF without the
  multiplication and division signs.
\<close>

definition is_alnum_char :: "char \<Rightarrow> bool" where
  "is_alnum_char c =
     (let n = (of_char c :: nat)
      in (48 \<le> n \<and> n \<le> 57) \<or> (65 \<le> n \<and> n \<le> 90) \<or> (97 \<le> n \<and> n \<le> 122)
         \<or> n = 170 \<or> n = 178 \<or> n = 179 \<or> n = 181 \<or> n = 185 \<or> n = 186
         \<or> (188 \<le> n \<and> n \<le> 190) \<or> (192 \<le> n \<and> n \<le> 214) \<or> (216 \<le> n \<and> n \<le> 246)
         \<or> 248 \<le> n)"

definition is_word_char :: "char \<Rightarrow> bool" where
  "is_word_char c = (is_alnum_char c \<or> c = CHR ''_'')"

text \<open>
  The characters of \<open>\s\<close>, which are also those \<open>strip()\<close> removes (\<open>str.isspace\<close>): U+0009
  to U+000D, U+001C to U+0020, the next-line control U+0085 and the no-break space U+00A0.
\<close>

definition is_space_char :: "char \<Rightarrow> bool" where
  "is_space_char c =
     (let n = (of_char c :: nat)
      in (9 \<le> n \<and> n \<le> 13) \<or> (28 \<le> n \<and> n \<le> 32) \<or> n = 133 \<or> n = 160)"

text \<open>\<open>kw in text\<close> on two strings: \<open>kw\<close> occurs in \<open>text\<close> as a contiguous run.\<close>

fun starts_with :: "string \<Rightarrow> string \<Rightarrow> bool" where
  "starts_with [] text = True"
| "starts_with (k # ks) [] = False"
| "starts_with (k # ks) (c # cs) = (k = c \<and> starts_with ks cs)"

fun py_in_str :: "string \<Rightarrow> string \<Rightarrow> bool" where
  "py_in_str kw [] = (kw = [])"
| "py_in_str kw (c # cs) = (starts_with kw (c # cs) \<or> py_in_str kw cs)"

text \<open>\<open>sep.join(parts)\<close>.\<close>

fun py_join :: "string \<Rightarrow> string list \<Rightarrow> string" where
  "py_join sep [] = []"
| "py_join sep [x] = x"
| "py_join sep (x # y # ys) = x @ sep @ py_join sep (y # ys)"

text \<open>\<open>s.strip()\<close> and \<open>s.split(',')\<close>.\<close>

definition py_strip :: "string \<Rightarrow> string" where
  "py_strip s = rev (dropWhile is_space_char (rev (dropWhile is_space_char s)))"

fun split_acc :: "char \<Rightarrow> string \<Rightarrow> string \<Rightarrow> string list" where
  "split_acc d cur [] = [rev cur]"
| "split_acc d cur (c # cs) =
     (if c = d then rev cur # split_acc d [] cs else split_acc d (c # cur) cs)"

definition py_split :: "char \<Rightarrow> string \<Rightarrow> string list" where
  "py_split d s = split_acc d [] s"

text \<open>
  \<open>re.sub(r'\s+', ' ', s)\<close>: every maximal run of whitespace becomes one blank. The flag
  says whether the character before was whitespace.
\<close>

fun sub_spaces :: "bool \<Rightarrow> string \<Rightarrow> string" where
  "sub_spaces in_run [] = []"
| "sub_spaces in_run (c # cs) =
     (if is_space_char c
      then (if in_run then sub_spaces True cs else CHR '' '' # sub_spaces True cs)
      else c # sub_spaces False cs)"

definition normalize_text :: "string \<Rightarrow> string" where
  "normalize_text s = py_lower (py_strip (sub_spaces False s))"

text \<open>
  A predicate for stating that a text is normalised: it is collapsed when its only whitespace is single blanks; the flag says that a
  blank may not come first.
\<close>

fun collapsed :: "bool \<Rightarrow> string \<Rightarrow> bool" where
  "collapsed in_run [] = True"
| "collapsed in_run (c # cs) =
     (if is_space_char c then c = CHR '' '' \<and> \<not> in_run \<and> collapsed True cs
      else collapsed False cs)"

text \<open>
  \<open>re.search(r'\b' + re.escape(kw) + r'\b', text)\<close>: \<open>kw\<close> occurs literally at some
  position with a word boundary on both sides. A boundary lies between a \<open>\w\<close> character
  and a character that is not one, the two ends of the text counting as not \<open>\w\<close>.
  \<open>prev\<close> says whether the character before the current position is a \<open>\w\<close> character.
\<close>

definition next_is_word :: "string \<Rightarrow> bool" where
  "next_is_word s = (case s of [] \<Rightarrow> False | c # _ \<Rightarrow> is_word_char c)"

definition boundary_match_here :: "bool \<Rightarrow> string \<Rightarrow> string \<Rightarrow> bool" where
  "boundary_match_here prev kw s =
     (starts_with kw s
      \<and> prev \<noteq> next_is_word s
      \<and> (if kw = [] then prev else is_word_char (last kw)) \<noteq> next_is_word (drop (length kw) s))"

fun boundary_search_from :: "bool \<Rightarrow> string \<Rightarrow> string \<Rightarrow> bool" where
  "boundary_search_from prev kw [] = boundary_match_here prev kw []"
| "boundary_search_from prev kw (c # cs) =
     (boundary_match_here prev kw (c # cs) \<or> boundary_search_from (is_word_char c) kw cs)"

definition re_search_word :: "string \<Rightarrow> string \<Rightarrow> bool" where
  "re_search_word kw text = boundary_search_from False kw text"

text \<open>
  \<open>repr\<close> of a string and of a list of strings, as an f-string renders a list:
  double quotes are chosen when the string holds a single quote and no double quote.
  The characters that are not printable are written as escapes: the controls U+0000 to
  U+001F and U+007F to U+009F, the no-break space U+00A0 and the soft hyphen U+00AD.
\<close>

definition hex_digit :: "nat \<Rightarrow> char" where
  "hex_digit n = (if n < 10 then char_of (48 + n) else char_of (87 + n))"

definition repr_char :: "char \<Rightarrow> char \<Rightarrow> string" where
  "repr_char q c =
     (if c = q \<or> c = CHR 0x5C then [CHR 0x5C, c]
      else if c = CHR 0x09 then [CHR 0x5C, CHR ''t'']
      else if c = CHR 0x0A then [CHR 0x5C, CHR ''n'']
      else if c = CHR 0x0D then [CHR 0x5C, CHR ''r'']
      else if (of_char c :: nat) < 32
              \<or> (127 \<le> (of_char c :: nat) \<and> (of_char c :: nat) \<le> 160)
              \<or> (of_char c :: nat) = 173
        then [CHR 0x5C, CHR ''x'', hex_digit ((of_char c :: nat) div 16),
              hex_digit ((of_char c :: nat) mod 16)]
      else [c])"

definition py_repr :: "string \<Rightarrow> string" where
  "py_repr s =
     (let q = (if CHR 0x27 \<in> set s \<and> CHR 0x22 \<notin> set s then CHR 0x22 else CHR 0x27)
      in q # concat (map (repr_char q) s) @ [q])"

definition py_repr_list :: "string list \<Rightarrow> string" where
  "py_repr_list xs = ''['' @ py_join '', '' (map py_repr xs) @ '']''"

text \<open>
  \<open>list(set(xs))\<close>: CPython lists a set of strings in an order fixed by their hashes, and
  string hashes are salted anew for every interpreter process. \<open>h\<close> stands for the hash of
  the running process; every listing is the distinct elements in some order, and every
  order arises from some \<open>h\<close>. \<open>sorted(list(set(xs)))\<close> does not depend on it.
\<close>

definition py_list_set :: "(string \<Rightarrow> nat) \<Rightarrow> string list \<Rightarrow> string list" where
  "py_list_set h xs = sort_key h (remdups xs)"

definition py_sorted_list_set :: "(string \<Rightarrow> nat) \<Rightarrow> string list \<Rightarrow> string list" where
  "py_sorted_list_set h xs = sort (py_list_set h xs)"

section \<open>Configuration (config.py)\<close>

record weights =
  frequency_band :: int
  environment :: int
  connectivity_option :: int
  power_keyword :: int
  text_similarity_scale :: int

definition WEIGHTS :: weights where
  "WEIGHTS = \<lparr>frequency_band = 5, environment = 3, connectivity_option = 2,
     power_keyword = 1, text_similarity_scale = 10\<rparr>"

definition POWER_KEYWORD_MAPPING :: "(string \<times> string list) list" where
  "POWER_KEYWORD_MAPPING =
    [(''DC Power'', [''dc power'', ''dc supply'']),
     (''AC Power'', [''ac power'', ''ac supply'']),
     (''Battery Powered'', [''battery'', ''batteries'', ''battery-powered'']),
     (''USB Powered'', [''usb power'', ''usb powered'']),
     (''Solar Power'', [''solar'', ''solar power'', ''solar-powered'']),
     (''PoE (Power over Ethernet)'', [''poe'', ''power over ethernet'']),
     (''Other / Not Specified'', [])]"

definition CONNECTIVITY_JSON_TO_PRODUCT_KEYWORDS :: "(string \<times> string list) list" where
  "CONNECTIVITY_JSON_TO_PRODUCT_KEYWORDS =
    [(''lorawan'', [''lorawan'', ''lora wan'']),
     (''lora_p2p'', [''lora p2p'', ''lora point-to-point'']),
     (''lora'', [''lora'']),
     (''meshtastic'', [''meshtastic'']),
     (''wifi'', [''wi-fi'', ''wifi'', ''wlan'', ''wireless lan'']),
     (''ble'', [''ble'', ''bluetooth low energy'', ''bluetooth le'']),
     (''nfc'', [''nfc'', ''near field communication'']),
     (''uwb'', [''uwb'', ''ultra-wideband'']),
     (''lte'', [''lte'', ''4g'']),
     (''5g'', [''5g'', ''5g nr'']),
     (''lte_m_cat_m1'', [''lte-m'', ''cat-m1'', ''lte cat m1'']),
     (''nb_iot'', [''nb-iot'', ''narrowband iot'']),
     (''gsm'', [''gsm'']),
     (''agw'', [''agw'']),
     (''lpwan_other'', []),
     (''gps'', [''gps'', ''global positioning system'']),
     (''gnss'', [''gnss'']),
     (''ethernet'', [''ethernet'', ''rj45'', ''lan port'']),
     (''poe'', [''poe'', ''power over ethernet'']),
     (''usb'', [''usb'']),
     (''pcie'', [''pcie'', ''pci express'']),
     (''twisted_pair'', [''twisted pair'']),
     (''coaxial_cable'', [''coaxial'']),
     (''i2c'', [''i2c'', [CHR ''i'', CHR 0xB2, CHR ''c'']]),
     (''spi'', [''spi'']),
     (''uart_serial'', [''uart'', ''serial port'', ''rs232'', ''rs-232'']),
     (''rs485'', [''rs485'', ''rs-485'']),
     (''sdi12'', [''sdi12'', ''sdi-12'']),
     (''can_bus'', [''can bus'', ''canbus'']),
     (''lin_bus'', [''lin bus'']),
     (''mqtt'', [''mqtt'']),
     (''adc'', [''adc'', ''analog-to-digital'', ''analog input'']),
     (''digital_io'', [''digital i/o'', ''digital io'', ''gpio'', ''digital input'',
        ''digital output''])]"

text \<open>\<open>d.get(key, default)\<close> on a dictionary written as its list of items.\<close>

definition dict_get :: "('k \<times> 'v) list \<Rightarrow> 'k \<Rightarrow> 'v \<Rightarrow> 'v" where
  "dict_get d k dflt = (case map_of d k of None \<Rightarrow> dflt | Some v \<Rightarrow> v)"

section \<open>Data model\<close>

text \<open>
  A row of the products table after \<open>DataLoader.preprocess_data\<close> and
  \<open>_precompute_product_data\<close>: the text columns hold strings (blank cells were filled
  with the empty string), the list columns hold the split, stripped, lower-cased tokens.
  An embedding is a vector of numbers, the empty vector standing for \<open>np.array([])\<close>;
  Python's floats are written as rationals.
\<close>

type_synonym embedding = "rat list"

record product =
  Product_ID :: string
  Product_Name :: string
  Description_And_Application :: string
  Notes :: string
  Connectivity :: string
  Deployment_Environment :: string
  Region_Support :: string
  Region_Support_List :: "string list"
  Connectivity_Lower_Text :: string
  Connectivity_List :: "string list"
  Deployment_Environment_Lower :: string
  combined_text :: string
  embedding :: embedding

text \<open>
  The requirement document. Every key is optional: \<open>None\<close> is a key that is absent, or
  whose enclosing section (\<open>region\<close>, \<open>deployment\<close>, \<open>application\<close>, \<open>connectivity\<close>) is
  absent; the code reads each through \<open>.get(section, {}).get(key, default)\<close>, which
  gives the default in both cases. A key that is present holds a value of the type the
  schema names. \<open>elaborate\<close> is a dictionary from category to token list, kept as its
  items in order.
\<close>

record requirement =
  frequencyBand :: "string option"
  deployment_environment :: "string option"
  application_type :: "string option"
  subtypes :: "string list option"
  otherSubtype :: "string option"
  elaborate :: "(string \<times> string list) list option"
  power :: "string list option"
  additionalDetails :: "string option"

definition opt_get :: "'a option \<Rightarrow> 'a \<Rightarrow> 'a" where
  "opt_get v dflt = (case v of None \<Rightarrow> dflt | Some x \<Rightarrow> x)"

section \<open>Hard constraints (hard\_matcher.py)\<close>

text \<open>
  The four values \<open>check_constraints\<close> returns, which are also the local variables it
  updates while it goes through the four dimensions. The details dictionary is kept as
  its items in insertion order; a value is \<open>Some True\<close>, \<open>Some False\<close> or \<open>None\<close>.
\<close>

record hc_result =
  overall_pass :: bool
  hc_score :: int
  hc_details :: "(string \<times> bool option) list"
  hc_explanation :: "string list"

definition hc_init :: hc_result where
  "hc_init = \<lparr>overall_pass = True, hc_score = 0, hc_details = [], hc_explanation = []\<rparr>"

definition dim_matched :: "string \<Rightarrow> int \<Rightarrow> string \<Rightarrow> hc_result \<Rightarrow> hc_result" where
  "dim_matched key w msg a =
     a\<lparr>hc_details := AList.update key (Some True) (hc_details a),
       hc_score := hc_score a + w,
       hc_explanation := hc_explanation a @ [msg]\<rparr>"

definition dim_failed :: "string \<Rightarrow> string \<Rightarrow> hc_result \<Rightarrow> hc_result" where
  "dim_failed key msg a =
     a\<lparr>hc_details := AList.update key (Some False) (hc_details a),
       overall_pass := False,
       hc_explanation := hc_explanation a @ [msg]\<rparr>"

definition dim_unspecified :: "string \<Rightarrow> string \<Rightarrow> hc_result \<Rightarrow> hc_result" where
  "dim_unspecified key msg a =
     a\<lparr>hc_details := AList.update key None (hc_details a),
       hc_explanation := hc_explanation a @ [msg]\<rparr>"

subsection \<open>1. Frequency band\<close>

definition check_frequency_band :: "product \<Rightarrow> requirement \<Rightarrow> hc_result \<Rightarrow> hc_result" where
  "check_frequency_band p r a =
     (let req_freq_band = py_lower (opt_get (frequencyBand r) '''');
          product_regions = Region_Support_List p
      in if req_freq_band \<noteq> [] then
           (if req_freq_band \<in> set product_regions
            then dim_matched ''frequency_band'' (frequency_band WEIGHTS)
                   (''Matched frequency band: '' @ py_upper req_freq_band) a
            else dim_failed ''frequency_band''
                   (''FAILED frequency band: Product supports '' @ py_repr_list product_regions
                     @ '', required '' @ py_upper req_freq_band) a)
         else dim_unspecified ''frequency_band'' ''Frequency band not specified by user.'' a)"

subsection \<open>2. Deployment environment\<close>

definition env_matches :: "string \<Rightarrow> string \<Rightarrow> bool" where
  "env_matches product_env req_env =
     (if product_env = req_env then True
      else if req_env = ''both'' \<and> product_env \<in> set [''indoor'', ''outdoor'', ''both'', '''']
        then True
      else if product_env = ''both'' \<and> req_env \<in> set [''indoor'', ''outdoor''] then True
      else False)"

definition check_environment :: "product \<Rightarrow> requirement \<Rightarrow> hc_result \<Rightarrow> hc_result" where
  "check_environment p r a =
     (let req_env = py_lower (opt_get (deployment_environment r) '''');
          product_env = Deployment_Environment_Lower p
      in if req_env \<noteq> [] then
           (if env_matches product_env req_env
            then dim_matched ''environment'' (environment WEIGHTS)
                   (''Matched environment: User '' @ [CHR 0x27] @ py_capitalize req_env
                     @ [CHR 0x27] @ '', Product '' @ [CHR 0x27] @ py_capitalize product_env
                     @ [CHR 0x27]) a
            else dim_failed ''environment''
                   (''FAILED environment: Product is '' @ [CHR 0x27] @ py_capitalize product_env
                     @ [CHR 0x27] @ '', required '' @ [CHR 0x27] @ py_capitalize req_env
                     @ [CHR 0x27]) a)
         else dim_unspecified ''environment'' ''Deployment environment not specified by user.'' a)"

subsection \<open>3. Connectivity\<close>

text \<open>The requested tokens of every category, lower-cased, in the order of the document.\<close>

definition requested_tokens :: "requirement \<Rightarrow> string list" where
  "requested_tokens r =
     concat (map (\<lambda>(conn_category_key, conn_ids). map py_lower conn_ids) (opt_get (elaborate r) []))"

definition user_connectivity_reqs_ids :: "(string \<Rightarrow> nat) \<Rightarrow> requirement \<Rightarrow> string list" where
  "user_connectivity_reqs_ids h r = py_list_set h (requested_tokens r)"

definition keywords_to_check :: "string \<Rightarrow> string list" where
  "keywords_to_check req_conn_id =
     dict_get CONNECTIVITY_JSON_TO_PRODUCT_KEYWORDS req_conn_id [req_conn_id]"

text \<open>The test of one keyword against the pre-split list or the raw text.\<close>

definition keyword_hit :: "product \<Rightarrow> string \<Rightarrow> bool" where
  "keyword_hit p kw =
     (kw \<in> set (Connectivity_List p)
      \<or> (Connectivity_Lower_Text p \<noteq> [] \<and> py_in_str kw (Connectivity_Lower_Text p)))"

text \<open>The inner loop over the keywords of one token, left at the first hit.\<close>

fun keyword_loop :: "product \<Rightarrow> string list \<Rightarrow> bool" where
  "keyword_loop p [] = False"
| "keyword_loop p (kw # kws) = (if keyword_hit p kw then True else keyword_loop p kws)"

text \<open>
  The outer loop over the requested tokens; its state is
  \<open>(matched_conn_options_found, score, any_user_req_matched)\<close>.
\<close>

fun conn_loop :: "product \<Rightarrow> string list \<Rightarrow> string list \<times> int \<times> bool \<Rightarrow> string list \<times> int \<times> bool" where
  "conn_loop p [] st = st"
| "conn_loop p (req_conn_id # ids) (found, sc, any_matched) =
     (if keyword_loop p (keywords_to_check req_conn_id)
      then conn_loop p ids
             (found @ [py_upper req_conn_id], sc + connectivity_option WEIGHTS, True)
      else conn_loop p ids (found, sc, any_matched))"

definition check_connectivity ::
  "(string \<Rightarrow> nat) \<Rightarrow> product \<Rightarrow> requirement \<Rightarrow> hc_result \<Rightarrow> hc_result" where
  "check_connectivity h p r a =
     (let ids = user_connectivity_reqs_ids h r
      in if ids \<noteq> [] then
           (case conn_loop p ids ([], hc_score a, False) of
              (found, sc, any_matched) \<Rightarrow>
                if any_matched
                then a\<lparr>hc_details := AList.update ''connectivity'' (Some True) (hc_details a),
                       hc_score := sc,
                       hc_explanation := hc_explanation a @
                         [''Matched connectivity options: ''
                            @ py_join '', '' (py_sorted_list_set h found)]\<rparr>
                else a\<lparr>hc_details := AList.update ''connectivity'' (Some False) (hc_details a),
                       hc_score := sc,
                       overall_pass := False,
                       hc_explanation := hc_explanation a @
                         [''FAILED connectivity: No product match for user required options: ''
                            @ py_join '', '' ids]\<rparr>)
         else dim_unspecified ''connectivity'' ''Connectivity not specified by user.'' a)"

subsection \<open>4. Power\<close>

definition product_text_for_power :: "product \<Rightarrow> string" where
  "product_text_for_power p = py_lower (Description_And_Application p @ '' '' @ Notes p)"

text \<open>The inner loop over the keywords of one label: the first keyword found, if any.\<close>

fun power_keyword_loop :: "string \<Rightarrow> string list \<Rightarrow> string option" where
  "power_keyword_loop text [] = None"
| "power_keyword_loop text (p_keyword # kws) =
     (if re_search_word p_keyword text then Some p_keyword else power_keyword_loop text kws)"

definition power_entry :: "string \<Rightarrow> string \<Rightarrow> string" where
  "power_entry p_keyword user_power_label =
     [CHR 0x27] @ p_keyword @ [CHR 0x27] @ '' (for '' @ user_power_label @ '')''"

text \<open>The outer loop over the labels; its state is \<open>power_keywords_found_in_product\<close>.\<close>

fun power_loop :: "string \<Rightarrow> string list \<Rightarrow> string list \<Rightarrow> string list" where
  "power_loop text [] found = found"
| "power_loop text (user_power_label # labels) found =
     (case power_keyword_loop text (dict_get POWER_KEYWORD_MAPPING user_power_label []) of
        Some p_keyword \<Rightarrow> power_loop text labels (found @ [power_entry p_keyword user_power_label])
      | None \<Rightarrow> power_loop text labels found)"

definition check_power ::
  "(string \<Rightarrow> nat) \<Rightarrow> product \<Rightarrow> requirement \<Rightarrow> hc_result \<Rightarrow> hc_result" where
  "check_power h p r a =
     (let req_power_options_labels = opt_get (power r) [];
          found = power_loop (product_text_for_power p) req_power_options_labels []
      in if req_power_options_labels \<noteq> [] then
           (if found \<noteq> []
            then dim_matched ''power'' (power_keyword WEIGHTS)
                   (''Power requirement(s) met: Found '' @ py_join '', '' (py_list_set h found)) a
            else dim_failed ''power''
                   (''FAILED power: No product match for user required power options (''
                     @ py_join '', '' req_power_options_labels
                     @ '') in product description/notes.'') a)
         else dim_unspecified ''power'' ''Power requirements not specified by user.'' a)"

subsection \<open>The whole check\<close>

definition check_constraints :: "(string \<Rightarrow> nat) \<Rightarrow> product \<Rightarrow> requirement \<Rightarrow> hc_result" where
  "check_constraints h p r =
     check_power h p r (check_connectivity h p r
       (check_environment p r (check_frequency_band p r hc_init)))"

section \<open>Catalog tables (data\_loader.py)\<close>

text \<open>
  A row of the products file with its blank cells filled, and the columns
  \<open>preprocess_data\<close> derives from it. The corpus text and the embedding are set later,
  by \<open>_precompute_product_data\<close>.
\<close>

record csv_product =
  csv_Product_ID :: string
  csv_Product_Name :: string
  csv_Description_And_Application :: string
  csv_Notes :: string
  csv_Connectivity :: string
  csv_Deployment_Environment :: string
  csv_Region_Support :: string

definition split_tokens :: "string \<Rightarrow> string list" where
  "split_tokens x = map (\<lambda>t. py_lower (py_strip t)) (filter (\<lambda>t. py_strip t \<noteq> []) (py_split CHR '','' x))"

definition preprocess_product :: "csv_product \<Rightarrow> product" where
  "preprocess_product c =
     \<lparr>Product_ID = csv_Product_ID c,
      Product_Name = csv_Product_Name c,
      Description_And_Application = csv_Description_And_Application c,
      Notes = csv_Notes c,
      Connectivity = csv_Connectivity c,
      Deployment_Environment = csv_Deployment_Environment c,
      Region_Support = csv_Region_Support c,
      Region_Support_List = split_tokens (csv_Region_Support c),
      Connectivity_Lower_Text = py_lower (csv_Connectivity c),
      Connectivity_List = split_tokens (csv_Connectivity c),
      Deployment_Environment_Lower = py_lower (csv_Deployment_Environment c),
      combined_text = [],
      embedding = []\<rparr>"

text \<open>
  An identifier cell of the features and mapping tables: \<open>read_csv\<close> gives integers for a
  numeric column and strings otherwise; \<open>astype(str)\<close> turns both into strings.
\<close>

datatype cell = IntCell int | StrCell string

function dec_digits :: "nat \<Rightarrow> string" where
  "dec_digits n = (if n < 10 then [char_of (48 + n)]
                   else dec_digits (n div 10) @ [char_of (48 + n mod 10)])"
  by pat_completeness auto
termination
  by (relation "measure id") auto

declare dec_digits.simps [simp del]

definition py_str_int :: "int \<Rightarrow> string" where
  "py_str_int i = (if i < 0 then CHR ''-'' # dec_digits (nat (- i)) else dec_digits (nat i))"

definition astype_str :: "cell \<Rightarrow> cell" where
  "astype_str c = (case c of IntCell i \<Rightarrow> StrCell (py_str_int i) | StrCell s \<Rightarrow> StrCell s)"

text \<open>A feature row (a description that is \<open>None\<close> is a NaN cell) and a mapping row.\<close>

record feature =
  Feature_ID :: cell
  Feature_Name :: string
  Feature_Description :: "string option"

record mapping_row =
  map_Product_ID :: cell
  map_Feature_ID :: cell

section \<open>Soft matching (soft\_matcher.py)\<close>

text \<open>
  \<open>build_product_corpus\<close> assigns the \<open>Feature_ID\<close> column of the features table it was
  given, so the model returns that table next to the text. The product row and the
  mapping table are only read.
\<close>

definition build_product_corpus ::
  "product \<Rightarrow> feature list \<Rightarrow> mapping_row list \<Rightarrow> string \<times> feature list" where
  "build_product_corpus product_row features_df product_feature_map_df =
     (let texts = [Description_And_Application product_row, Notes product_row,
                   Connectivity product_row];
          product_id = Product_ID product_row;
          associated_feature_ids =
            map map_Feature_ID
              (filter (\<lambda>m. map_Product_ID m = StrCell product_id) product_feature_map_df);
          features_cast = map (\<lambda>f. f\<lparr>Feature_ID := astype_str (Feature_ID f)\<rparr>) features_df;
          feature_descriptions =
            map Feature_Description
              (filter (\<lambda>f. Feature_ID f \<in> set associated_feature_ids) features_cast)
      in if features_df \<noteq> [] \<and> product_feature_map_df \<noteq> [] \<and> product_id \<noteq> []
            \<and> associated_feature_ids \<noteq> []
         then (normalize_text (py_join '' ''
                 (filter (\<lambda>t. t \<noteq> []) (texts @ List.map_filter id feature_descriptions))),
               features_cast)
         else (normalize_text (py_join '' '' (filter (\<lambda>t. t \<noteq> []) texts)), features_df))"

definition build_requirement_query :: "requirement \<Rightarrow> string" where
  "build_requirement_query r =
     (let query_parts =
            [opt_get (application_type r) '''']
            @ (if opt_get (subtypes r) [] \<noteq> [] then [py_join '' '' (opt_get (subtypes r) [])] else [])
            @ (if opt_get (otherSubtype r) '''' \<noteq> [] then [opt_get (otherSubtype r) ''''] else [])
            @ [opt_get (additionalDetails r) '''']
      in normalize_text (py_join '' '' (filter (\<lambda>t. t \<noteq> []) query_parts)))"

text \<open>
  The sentence-embedding model and the cosine similarity of the library are outside the
  repository. \<open>model\<close> is \<open>None\<close> when loading it failed; a loaded model maps a batch of
  texts to one vector per text, or raises (\<open>None\<close>). \<open>cos_sim\<close> gives the similarity of
  two vectors, or raises.
\<close>

record soft_matcher =
  model :: "(string list \<Rightarrow> embedding list option) option"
  cos_sim :: "embedding \<Rightarrow> embedding \<Rightarrow> rat option"

definition get_embeddings :: "soft_matcher \<Rightarrow> string list \<Rightarrow> embedding list option" where
  "get_embeddings sm texts =
     (case model sm of
        None \<Rightarrow> None
      | Some encode \<Rightarrow> if texts = [] \<or> (\<forall>t \<in> set texts. t = []) then Some [] else encode texts)"

definition calculate_similarity :: "soft_matcher \<Rightarrow> embedding \<Rightarrow> embedding list \<Rightarrow> rat list" where
  "calculate_similarity sm query_embedding product_embeddings_list =
     (if product_embeddings_list = [] then []
      else case those (map (cos_sim sm query_embedding) product_embeddings_list) of
             None \<Rightarrow> []
           | Some similarities \<Rightarrow> similarities)"

section \<open>Ranking (recommender.py)\<close>

text \<open>
  Python's \<open>round(x, n)\<close> and the format \<open>{x:.2f}\<close>, both rounding half to even, on the
  rationals that stand for the floats.
\<close>

definition round_half_even :: "rat \<Rightarrow> int" where
  "round_half_even x =
     (let f = \<lfloor>x\<rfloor>; d = x - of_int f
      in if d < 1 / 2 then f else if 1 / 2 < d then f + 1 else if even f then f else f + 1)"

definition py_round :: "nat \<Rightarrow> rat \<Rightarrow> rat" where
  "py_round n x = of_int (round_half_even (x * 10 ^ n)) / 10 ^ n"

definition format_2f :: "rat \<Rightarrow> string" where
  "format_2f x =
     (let m = nat (round_half_even (\<bar>x\<bar> * 100));
          frac = dec_digits (m mod 100)
      in (if x < 0 then ''-'' else '''') @ dec_digits (m div 100) @ ''.''
           @ (if length frac < 2 then ''0'' else '''') @ frac)"

text \<open>The slice \<open>xs[:n]\<close>; a negative \<open>n\<close> counts from the end.\<close>

definition py_slice_to :: "int \<Rightarrow> 'a list \<Rightarrow> 'a list" where
  "py_slice_to n xs = (if 0 \<le> n then take (nat n) xs else take (length xs - nat (- n)) xs)"

text \<open>The entries of \<open>recommendation_data\<close> and of the returned list.\<close>

record recommendation_data =
  product_id :: string
  product_name :: string
  hard_constraint_score :: int
  hard_constraint_details :: "(string \<times> bool option) list"
  similarity_score :: rat
  final_score :: rat
  explanation :: "string list"

record recommendation =
  rec_Product_ID :: string
  rec_Product_Name :: string
  Hard_Constraints_Passed_Details :: "(string \<times> bool option) list"
  Text_Similarity :: rat
  Final_Score :: rat
  Explanation_Details :: "string list"

text \<open>
  The calls \<open>recommend\<close> makes on its soft matcher, in order: the model returns them
  next to the list of recommendations.
\<close>

datatype soft_call =
  Build_requirement_query
  | Get_embeddings "string list"
  | Calculate_similarity nat

text \<open>Step 1: the products that pass, in catalog order, each with its result.\<close>

definition hard_constraint_results ::
  "(string \<Rightarrow> nat) \<Rightarrow> product list \<Rightarrow> requirement \<Rightarrow> (product \<times> hc_result) list" where
  "hard_constraint_results h products_df r =
     filter (\<lambda>(p, res). overall_pass res) (map (\<lambda>p. (p, check_constraints h p r)) products_df)"

text \<open>The record of a candidate whose similarity was not computed.\<close>

definition no_similarity_data :: "string \<Rightarrow> product \<times> hc_result \<Rightarrow> recommendation_data" where
  "no_similarity_data note row =
     (case row of (p, res) \<Rightarrow>
        \<lparr>product_id = Product_ID p,
         product_name = Product_Name p,
         hard_constraint_score = hc_score res,
         hard_constraint_details = hc_details res,
         similarity_score = 0,
         final_score = of_int (hc_score res),
         explanation = hc_explanation res @ [note]\<rparr>)"

text \<open>The record of a candidate with its similarity.\<close>

definition scored_data :: "product \<times> hc_result \<Rightarrow> rat \<Rightarrow> recommendation_data" where
  "scored_data row similarity =
     (case row of (p, res) \<Rightarrow>
        (let scaled_similarity_score = similarity * of_int (text_similarity_scale WEIGHTS);
             final = of_int (hc_score res) + scaled_similarity_score
         in \<lparr>product_id = Product_ID p,
              product_name = Product_Name p,
              hard_constraint_score = hc_score res,
              hard_constraint_details = hc_details res,
              similarity_score = py_round 4 similarity,
              final_score = py_round 2 final,
              explanation = hc_explanation res @
                [''Text Similarity Score: '' @ format_2f similarity @ '' (scaled: ''
                   @ format_2f scaled_similarity_score @ '')'']\<rparr>))"

text \<open>
  The column \<open>similarity_score_temp\<close>: zero for every candidate, then the i-th similarity
  written at the position of the i-th candidate that has an embedding.
\<close>

definition similarity_score_temp :: "embedding list \<Rightarrow> rat list \<Rightarrow> rat list" where
  "similarity_score_temp embeddings cosine_similarities =
     (let valid_embedding_indices = filter (\<lambda>idx. embeddings ! idx \<noteq> []) [0..<length embeddings]
      in fold (\<lambda>(i, sim_score) col. col[valid_embedding_indices ! i := sim_score])
           (zip [0..<length cosine_similarities] cosine_similarities)
           (replicate (length embeddings) 0))"

definition format_output :: "recommendation_data \<Rightarrow> recommendation" where
  "format_output p_data =
     \<lparr>rec_Product_ID = product_id p_data,
      rec_Product_Name = product_name p_data,
      Hard_Constraints_Passed_Details = hard_constraint_details p_data,
      Text_Similarity = similarity_score p_data,
      Final_Score = final_score p_data,
      Explanation_Details = explanation p_data\<rparr>"

text \<open>
  \<open>sorted(recommendation_data, key=..., reverse=True)\<close> is a stable sort: records with
  the same final score stay in the order they had. Then the slice and the output format.
\<close>

definition rank_and_format :: "int \<Rightarrow> recommendation_data list \<Rightarrow> recommendation list" where
  "rank_and_format top_n recommendation_data =
     map format_output (py_slice_to top_n (sort_key (\<lambda>x. - final_score x) recommendation_data))"

text \<open>
  Step 2: the list \<open>recommendation_data\<close>, filled in one of three ways, with the calls
  made on the soft matcher.
\<close>

definition soft_match ::
  "soft_matcher \<Rightarrow> requirement \<Rightarrow> (product \<times> hc_result) list
     \<Rightarrow> recommendation_data list \<times> soft_call list" where
  "soft_match sm r candidates =
     (let requirement_query_str = build_requirement_query r
      in if py_strip requirement_query_str = [] \<or> model sm = None
         then (map (no_similarity_data ''Text Similarity: 0.00 (Query empty or model issue)'')
                 candidates,
               [Build_requirement_query])
         else
           (case get_embeddings sm [requirement_query_str] of
              None \<Rightarrow>
                (map (no_similarity_data ''Text Similarity: 0.00 (Query embedding failed)'')
                   candidates,
                 [Build_requirement_query, Get_embeddings [requirement_query_str]])
            | Some [] \<Rightarrow>
                (map (no_similarity_data ''Text Similarity: 0.00 (Query embedding failed)'')
                   candidates,
                 [Build_requirement_query, Get_embeddings [requirement_query_str]])
            | Some (query_embedding # _) \<Rightarrow>
                (let embeddings = map (\<lambda>(p, res). embedding p) candidates;
                     product_embeddings_for_similarity = filter (\<lambda>emb. emb \<noteq> []) embeddings;
                     cosine_similarities =
                       (if product_embeddings_for_similarity = [] then []
                        else calculate_similarity sm query_embedding
                               product_embeddings_for_similarity);
                     sims = similarity_score_temp embeddings cosine_similarities
                 in (map2 scored_data candidates sims,
                     [Build_requirement_query, Get_embeddings [requirement_query_str]]
                     @ (if product_embeddings_for_similarity = [] then []
                        else [Calculate_similarity (length product_embeddings_for_similarity)])))))"

definition recommend ::
  "soft_matcher \<Rightarrow> (string \<Rightarrow> nat) \<Rightarrow> product list \<Rightarrow> requirement \<Rightarrow> int
     \<Rightarrow> recommendation list \<times> soft_call list" where
  "recommend sm h products_df r top_n =
     (if products_df = [] then ([], [])
      else
        (let candidates = hard_constraint_results h products_df r
         in if candidates = [] then ([], [])
            else (case soft_match sm r candidates of
                    (recommendation_data, calls) \<Rightarrow>
                      (rank_and_format top_n recommendation_data, calls))))"

text \<open>The default of the parameter \<open>top_n\<close> in \<open>def recommend(self, requirements_json, top_n=5)\<close>.\<close>

definition recommend_default ::
  "soft_matcher \<Rightarrow> (string \<Rightarrow> nat) \<Rightarrow> product list \<Rightarrow> requirement
     \<Rightarrow> recommendation list \<times> soft_call list" where
  "recommend_default sm h products_df r = recommend sm h products_df r 5"

section \<open>Example inputs\<close>

text \<open>Two hashes, standing for two interpreter processes.\<close>

definition hash_a :: "string \<Rightarrow> nat" where
  "hash_a s = length s"

definition hash_b :: "string \<Rightarrow> nat" where
  "hash_b s = 100 - length s"

definition gateway_row :: csv_product where
  "gateway_row =
     \<lparr>csv_Product_ID = ''P1'', csv_Product_Name = ''Gateway'',
      csv_Description_And_Application = ''Solar and battery gateway'',
      csv_Notes = ''back panel'', csv_Connectivity = ''LoRaWAN, Ethernet'',
      csv_Deployment_Environment = ''Both'', csv_Region_Support = ''US915, EU868''\<rparr>"

definition gateway :: product where
  "gateway = preprocess_product gateway_row"

definition gateway_requirement :: requirement where
  "gateway_requirement =
     \<lparr>frequencyBand = Some ''US915'', deployment_environment = Some ''Indoor'',
      application_type = None, subtypes = None, otherSubtype = None,
      elaborate = Some [(''radio'', [''lorawan'', ''BLE''])],
      power = Some [''Battery Powered'', ''Solar Power''], additionalDetails = None\<rparr>"

definition unconstrained_requirement :: requirement where
  "unconstrained_requirement =
     \<lparr>frequencyBand = None, deployment_environment = None, application_type = None,
      subtypes = None, otherSubtype = None, elaborate = None, power = None,
      additionalDetails = None\<rparr>"

text \<open>A product with an empty connectivity cell, and a requirement whose only token is blank.\<close>

definition bare_product :: product where
  "bare_product =
     preprocess_product
       \<lparr>csv_Product_ID = ''P0'', csv_Product_Name = ''Bare'',
        csv_Description_And_Application = '''', csv_Notes = '''', csv_Connectivity = '''',
        csv_Deployment_Environment = '''', csv_Region_Support = ''''\<rparr>"

definition blank_token_requirement :: requirement where
  "blank_token_requirement = unconstrained_requirement\<lparr>elaborate := Some [(''radio'', [''''])]\<rparr>"

text \<open>A soft matcher whose model failed to load, and one whose model works.\<close>

definition broken_matcher :: soft_matcher where
  "broken_matcher = \<lparr>model = None, cos_sim = (\<lambda>a b. None)\<rparr>"

definition working_matcher :: soft_matcher where
  "working_matcher =
     \<lparr>model = Some (\<lambda>texts. Some (map (\<lambda>t. [1, 0]) texts)), cos_sim = (\<lambda>a b. Some (1 / 2))\<rparr>"

definition power_requirement :: requirement where
  "power_requirement =
     unconstrained_requirement\<lparr>power := Some [''Battery Powered'', ''Solar Power'']\<rparr>"

definition four_products :: "product list" where
  "four_products = map (\<lambda>i. bare_product\<lparr>Product_ID := i\<rparr>) [''A'', ''B'', ''C'', ''D'']"

text \<open>A features table and a mapping table as read from files with numeric feature ids.\<close>

definition numeric_features :: "feature list" where
  "numeric_features =
     [\<lparr>Feature_ID = IntCell 7, Feature_Name = ''GPS'', Feature_Description = Some ''GPS receiver''\<rparr>]"

definition numeric_mapping :: "mapping_row list" where
  "numeric_mapping = [\<lparr>map_Product_ID = StrCell ''P1'', map_Feature_ID = IntCell 7\<rparr>]"

text \<open>The same two tables after \<open>preprocess_data\<close> has cast the ids to strings.\<close>

definition string_features :: "feature list" where
  "string_features =
     [\<lparr>Feature_ID = StrCell ''7'', Feature_Name = ''GPS'', Feature_Description = Some ''GPS receiver''\<rparr>]"

definition string_mapping :: "mapping_row list" where
  "string_mapping = [\<lparr>map_Product_ID = StrCell ''P1'', map_Feature_ID = StrCell ''7''\<rparr>]"

text \<open>
  A product whose description holds power keywords only inside longer words, a
  requirement for two power labels, and a product and a requirement that name the same
  environment in different case, with a letter beyond ASCII (U+00E9 and U+00C9).
\<close>

definition lamp :: product where
  "lamp =
     preprocess_product
       \<lparr>csv_Product_ID = ''P2'', csv_Product_Name = ''Lamp'',
        csv_Description_And_Application = ''Zodiac power solarium'', csv_Notes = ''back panel'',
        csv_Connectivity = '''', csv_Deployment_Environment = ''Outdoor'',
        csv_Region_Support = ''''\<rparr>"

definition mains_requirement :: requirement where
  "mains_requirement = unconstrained_requirement\<lparr>power := Some [''AC Power'', ''Solar Power'']\<rparr>"

definition patio :: product where
  "patio =
     preprocess_product
       \<lparr>csv_Product_ID = ''P3'', csv_Product_Name = ''Patio'',
        csv_Description_And_Application = '''', csv_Notes = '''', csv_Connectivity = '''',
        csv_Deployment_Environment =
          [CHR ''E'', CHR ''x'', CHR ''t'', CHR 0xE9, CHR ''r'', CHR ''i'', CHR ''e'', CHR ''u'', CHR ''r''],
        csv_Region_Support = ''''\<rparr>"

definition patio_requirement :: requirement where
  "patio_requirement =
     unconstrained_requirement
       \<lparr>deployment_environment :=
          Some [CHR ''E'', CHR ''X'', CHR ''T'', CHR 0xC9, CHR ''R'', CHR ''I'', CHR ''E'', CHR ''U'', CHR ''R'']\<rparr>"

section \<open>Helper lemmas\<close>

subsection \<open>Strings and sets\<close>

lemma py_list_set_set: "set (py_list_set h xs) = set xs"
  by (simp add: py_list_set_def)

lemma py_list_set_distinct: "distinct (py_list_set h xs)"
  by (simp add: py_list_set_def)

lemma py_list_set_empty: "py_list_set h xs = [] \<longleftrightarrow> xs = []"
  using py_list_set_set [of h xs] by (metis set_empty)

lemma py_lower_empty: "py_lower s = [] \<longleftrightarrow> s = []"
  by (simp add: py_lower_def)

lemma starts_with_iff: "starts_with kw s \<longleftrightarrow> (\<exists>suf. s = kw @ suf)"
proof (induction kw s rule: starts_with.induct)
  case (1 s)
  show ?case by simp
next
  case (2 k ks)
  show ?case by simp
next
  case (3 k ks c cs)
  then show ?case by auto
qed

text \<open>\<open>py_in_str\<close> is the substring relation.\<close>

lemma py_in_str_iff: "py_in_str kw hay \<longleftrightarrow> (\<exists>pre suf. hay = pre @ kw @ suf)"
proof (induction hay)
  case Nil
  show ?case by auto
next
  case (Cons c cs)
  show ?case
  proof
    assume "py_in_str kw (c # cs)"
    then consider "starts_with kw (c # cs)" | "py_in_str kw cs" by auto
    then show "\<exists>pre suf. c # cs = pre @ kw @ suf"
    proof cases
      case 1
      then obtain suf where "c # cs = kw @ suf" by (auto simp: starts_with_iff)
      then have "c # cs = [] @ kw @ suf" by simp
      then show ?thesis by blast
    next
      case 2
      then obtain pre suf where "cs = pre @ kw @ suf" using Cons.IH by blast
      then have "c # cs = (c # pre) @ kw @ suf" by simp
      then show ?thesis by blast
    qed
  next
    assume "\<exists>pre suf. c # cs = pre @ kw @ suf"
    then obtain pre suf where eq: "c # cs = pre @ kw @ suf" by blast
    show "py_in_str kw (c # cs)"
    proof (cases pre)
      case Nil
      with eq have "starts_with kw (c # cs)" by (auto simp: starts_with_iff)
      then show ?thesis by simp
    next
      case (Cons d pre')
      with eq have "cs = pre' @ kw @ suf" by simp
      then have "py_in_str kw cs" using Cons.IH by blast
      then show ?thesis by simp
    qed
  qed
qed

subsection \<open>Matching between word boundaries\<close>

text \<open>
  \<open>re_search_word\<close> finds exactly the occurrences of the keyword that have a word boundary
  at both ends: the text splits into a part before, the keyword and a part after, and
  at each end of the keyword exactly one of the two neighbouring characters is a \<open>\w\<close>
  character, a missing neighbour counting as none.
\<close>

lemma next_is_word_iff: "next_is_word s \<longleftrightarrow> s \<noteq> [] \<and> is_word_char (hd s)"
  by (cases s) (simp_all add: next_is_word_def)

lemma boundary_match_here_iff:
  "boundary_match_here prev kw s \<longleftrightarrow>
     (\<exists>post. s = kw @ post
        \<and> prev \<noteq> next_is_word (kw @ post)
        \<and> (if kw = [] then prev else is_word_char (last kw)) \<noteq> next_is_word post)"
  by (auto simp add: boundary_match_here_def starts_with_iff)

lemma boundary_search_from_iff:
  "boundary_search_from prev kw s \<longleftrightarrow>
     (\<exists>pre post. s = pre @ kw @ post
        \<and> (if pre = [] then prev else is_word_char (last pre)) \<noteq> next_is_word (kw @ post)
        \<and> (if pre @ kw = [] then prev else is_word_char (last (pre @ kw))) \<noteq> next_is_word post)"
proof (induction s arbitrary: prev)
  case Nil
  show ?case by (auto simp add: boundary_match_here_iff)
next
  case (Cons c cs)
  let ?Q = "\<lambda>prev s pre post. s = pre @ kw @ post
        \<and> (if pre = [] then prev else is_word_char (last pre)) \<noteq> next_is_word (kw @ post)
        \<and> (if pre @ kw = [] then prev else is_word_char (last (pre @ kw))) \<noteq> next_is_word post"
  have split: "(\<exists>pre post. ?Q prev (c # cs) pre post) \<longleftrightarrow>
      (\<exists>post. ?Q prev (c # cs) [] post) \<or> (\<exists>pre' post. ?Q prev (c # cs) (c # pre') post)"
  proof
    assume "\<exists>pre post. ?Q prev (c # cs) pre post"
    then obtain pre post where q: "?Q prev (c # cs) pre post" by blast
    show "(\<exists>post. ?Q prev (c # cs) [] post) \<or> (\<exists>pre' post. ?Q prev (c # cs) (c # pre') post)"
    proof (cases pre)
      case Nil
      with q show ?thesis by blast
    next
      case (Cons d pre')
      with q have "d = c" by simp
      with q Cons show ?thesis by blast
    qed
  next
    assume "(\<exists>post. ?Q prev (c # cs) [] post) \<or> (\<exists>pre' post. ?Q prev (c # cs) (c # pre') post)"
    then show "\<exists>pre post. ?Q prev (c # cs) pre post" by blast
  qed
  have here: "(\<exists>post. ?Q prev (c # cs) [] post) \<longleftrightarrow> boundary_match_here prev kw (c # cs)"
    by (simp add: boundary_match_here_iff)
  have later: "(\<exists>pre' post. ?Q prev (c # cs) (c # pre') post)
      \<longleftrightarrow> (\<exists>pre' post. ?Q (is_word_char c) cs pre' post)"
    by simp
  show ?case
    using Cons.IH [of "is_word_char c"] split here later by simp
qed

lemma re_search_word_iff:
  "re_search_word kw s \<longleftrightarrow>
     (\<exists>pre post. s = pre @ kw @ post
        \<and> (pre \<noteq> [] \<and> is_word_char (last pre))
            \<noteq> (kw @ post \<noteq> [] \<and> is_word_char (hd (kw @ post)))
        \<and> (pre @ kw \<noteq> [] \<and> is_word_char (last (pre @ kw)))
            \<noteq> (post \<noteq> [] \<and> is_word_char (hd post)))"
proof -
  have a: "(if pre = [] then False else is_word_char (last pre))
      = (pre \<noteq> [] \<and> is_word_char (last pre))" for pre :: string
    by simp
  show ?thesis
    unfolding re_search_word_def boundary_search_from_iff next_is_word_iff a ..
qed

subsection \<open>The loops of the connectivity and power checks\<close>

lemma keyword_loop_iff: "keyword_loop p kws \<longleftrightarrow> (\<exists>kw \<in> set kws. keyword_hit p kw)"
  by (induction kws) simp_all

lemma conn_loop_eq:
  "conn_loop p ids (found, sc, any_matched) =
     (found @ map py_upper (filter (\<lambda>t. keyword_loop p (keywords_to_check t)) ids),
      sc + connectivity_option WEIGHTS
             * int (length (filter (\<lambda>t. keyword_loop p (keywords_to_check t)) ids)),
      any_matched \<or> (\<exists>t \<in> set ids. keyword_loop p (keywords_to_check t)))"
proof (induction ids arbitrary: found sc any_matched)
  case Nil
  show ?case by simp
next
  case (Cons t ids)
  show ?case
  proof (cases "keyword_loop p (keywords_to_check t)")
    case True
    then show ?thesis by (simp add: Cons.IH distrib_left)
  next
    case False
    then show ?thesis by (simp add: Cons.IH)
  qed
qed

lemma matched_count:
  "length (filter P (user_connectivity_reqs_ids h r)) = card {t \<in> set (requested_tokens r). P t}"
proof -
  have "distinct (filter P (user_connectivity_reqs_ids h r))"
    by (simp add: user_connectivity_reqs_ids_def py_list_set_distinct)
  then have "card (set (filter P (user_connectivity_reqs_ids h r)))
      = length (filter P (user_connectivity_reqs_ids h r))"
    by (rule distinct_card)
  moreover have "set (filter P (user_connectivity_reqs_ids h r))
      = {t \<in> set (requested_tokens r). P t}"
    by (simp add: user_connectivity_reqs_ids_def py_list_set_set)
  ultimately show ?thesis by simp
qed

lemma power_keyword_loop_None:
  "power_keyword_loop s kws = None \<longleftrightarrow> (\<forall>kw \<in> set kws. \<not> re_search_word kw s)"
  by (induction kws) simp_all

lemma power_loop_empty:
  "power_loop s labels found = [] \<longleftrightarrow>
     found = [] \<and> (\<forall>l \<in> set labels.
        power_keyword_loop s (dict_get POWER_KEYWORD_MAPPING l []) = None)"
proof (induction labels arbitrary: found)
  case Nil
  show ?case by simp
next
  case (Cons l labels)
  show ?case
    by (cases "power_keyword_loop s (dict_get POWER_KEYWORD_MAPPING l [])")
       (simp_all add: Cons.IH)
qed

subsection \<open>What each of the four checks does to the running result\<close>

lemmas dim_defs = dim_matched_def dim_failed_def dim_unspecified_def

lemma frequency_band_step:
  "hc_details (check_frequency_band p r a) =
     AList.update ''frequency_band''
       (if py_lower (opt_get (frequencyBand r) []) = [] then None
        else Some (py_lower (opt_get (frequencyBand r) []) \<in> set (Region_Support_List p)))
       (hc_details a)"
  "hc_score (check_frequency_band p r a) = hc_score a +
       (if py_lower (opt_get (frequencyBand r) []) \<noteq> []
           \<and> py_lower (opt_get (frequencyBand r) []) \<in> set (Region_Support_List p)
        then frequency_band WEIGHTS else 0)"
  "overall_pass (check_frequency_band p r a) =
     (overall_pass a \<and> (py_lower (opt_get (frequencyBand r) []) = []
        \<or> py_lower (opt_get (frequencyBand r) []) \<in> set (Region_Support_List p)))"
  "length (hc_explanation (check_frequency_band p r a)) = Suc (length (hc_explanation a))"
  by (simp_all add: check_frequency_band_def Let_def dim_defs)

lemma environment_step:
  "hc_details (check_environment p r a) =
     AList.update ''environment''
       (if py_lower (opt_get (deployment_environment r) []) = [] then None
        else Some (env_matches (Deployment_Environment_Lower p)
                     (py_lower (opt_get (deployment_environment r) []))))
       (hc_details a)"
  "hc_score (check_environment p r a) = hc_score a +
       (if py_lower (opt_get (deployment_environment r) []) \<noteq> []
           \<and> env_matches (Deployment_Environment_Lower p)
                (py_lower (opt_get (deployment_environment r) []))
        then environment WEIGHTS else 0)"
  "overall_pass (check_environment p r a) =
     (overall_pass a \<and> (py_lower (opt_get (deployment_environment r) []) = []
        \<or> env_matches (Deployment_Environment_Lower p)
             (py_lower (opt_get (deployment_environment r) []))))"
  "length (hc_explanation (check_environment p r a)) = Suc (length (hc_explanation a))"
  by (simp_all add: check_environment_def Let_def dim_defs)

lemma connectivity_step:
  "hc_details (check_connectivity h p r a) =
     AList.update ''connectivity''
       (if requested_tokens r = [] then None
        else Some (\<exists>t \<in> set (requested_tokens r). keyword_loop p (keywords_to_check t)))
       (hc_details a)"
  "hc_score (check_connectivity h p r a) = hc_score a +
       connectivity_option WEIGHTS
         * int (card {t \<in> set (requested_tokens r). keyword_loop p (keywords_to_check t)})"
  "overall_pass (check_connectivity h p r a) =
     (overall_pass a \<and> (requested_tokens r = []
        \<or> (\<exists>t \<in> set (requested_tokens r). keyword_loop p (keywords_to_check t))))"
  "length (hc_explanation (check_connectivity h p r a)) = Suc (length (hc_explanation a))"
proof -
  have ids: "user_connectivity_reqs_ids h r = [] \<longleftrightarrow> requested_tokens r = []"
    by (simp add: user_connectivity_reqs_ids_def py_list_set_empty)
  have st: "set (user_connectivity_reqs_ids h r) = set (requested_tokens r)"
    by (simp add: user_connectivity_reqs_ids_def py_list_set_set)
  show "hc_details (check_connectivity h p r a) =
     AList.update ''connectivity''
       (if requested_tokens r = [] then None
        else Some (\<exists>t \<in> set (requested_tokens r). keyword_loop p (keywords_to_check t)))
       (hc_details a)"
    by (simp add: check_connectivity_def Let_def conn_loop_eq ids st dim_defs)
  show "hc_score (check_connectivity h p r a) = hc_score a +
       connectivity_option WEIGHTS
         * int (card {t \<in> set (requested_tokens r). keyword_loop p (keywords_to_check t)})"
    by (simp add: check_connectivity_def Let_def conn_loop_eq ids st dim_defs matched_count)
  show "overall_pass (check_connectivity h p r a) =
     (overall_pass a \<and> (requested_tokens r = []
        \<or> (\<exists>t \<in> set (requested_tokens r). keyword_loop p (keywords_to_check t))))"
    by (simp add: check_connectivity_def Let_def conn_loop_eq ids st dim_defs)
  show "length (hc_explanation (check_connectivity h p r a)) = Suc (length (hc_explanation a))"
    by (simp add: check_connectivity_def Let_def conn_loop_eq ids st dim_defs)
qed

lemma power_step:
  "hc_details (check_power h p r a) =
     AList.update ''power''
       (if opt_get (power r) [] = [] then None
        else Some (power_loop (product_text_for_power p) (opt_get (power r) []) [] \<noteq> []))
       (hc_details a)"
  "hc_score (check_power h p r a) = hc_score a +
       (if opt_get (power r) [] \<noteq> []
           \<and> power_loop (product_text_for_power p) (opt_get (power r) []) [] \<noteq> []
        then power_keyword WEIGHTS else 0)"
  "overall_pass (check_power h p r a) =
     (overall_pass a \<and> (opt_get (power r) [] = []
        \<or> power_loop (product_text_for_power p) (opt_get (power r) []) [] \<noteq> []))"
  "length (hc_explanation (check_power h p r a)) = Suc (length (hc_explanation a))"
  by (simp_all add: check_power_def Let_def dim_defs)

lemma hc_score_check_constraints:
  "hc_score (check_constraints h p r) =
     (if py_lower (opt_get (frequencyBand r) []) \<noteq> []
         \<and> py_lower (opt_get (frequencyBand r) []) \<in> set (Region_Support_List p)
      then frequency_band WEIGHTS else 0)
     + (if py_lower (opt_get (deployment_environment r) []) \<noteq> []
           \<and> env_matches (Deployment_Environment_Lower p)
                (py_lower (opt_get (deployment_environment r) []))
        then environment WEIGHTS else 0)
     + connectivity_option WEIGHTS
         * int (card {t \<in> set (requested_tokens r). keyword_loop p (keywords_to_check t)})
     + (if opt_get (power r) [] \<noteq> []
           \<and> power_loop (product_text_for_power p) (opt_get (power r) []) [] \<noteq> []
        then power_keyword WEIGHTS else 0)"
  unfolding check_constraints_def
  by (simp only: power_step(2) connectivity_step(2) environment_step(2) frequency_band_step(2))
     (simp add: hc_init_def)

lemma hc_details_check_constraints:
  "hc_details (check_constraints h p r) =
     [(''frequency_band'',
        if py_lower (opt_get (frequencyBand r) []) = [] then None
        else Some (py_lower (opt_get (frequencyBand r) []) \<in> set (Region_Support_List p))),
      (''environment'',
        if py_lower (opt_get (deployment_environment r) []) = [] then None
        else Some (env_matches (Deployment_Environment_Lower p)
                     (py_lower (opt_get (deployment_environment r) [])))),
      (''connectivity'',
        if requested_tokens r = [] then None
        else Some (\<exists>t \<in> set (requested_tokens r). keyword_loop p (keywords_to_check t))),
      (''power'',
        if opt_get (power r) [] = [] then None
        else Some (power_loop (product_text_for_power p) (opt_get (power r) []) [] \<noteq> []))]"
  unfolding check_constraints_def
  by (simp only: power_step(1) connectivity_step(1) environment_step(1) frequency_band_step(1))
     (simp add: hc_init_def)

lemma overall_pass_check_constraints:
  "overall_pass (check_constraints h p r) \<longleftrightarrow>
     (py_lower (opt_get (frequencyBand r) []) = []
        \<or> py_lower (opt_get (frequencyBand r) []) \<in> set (Region_Support_List p))
     \<and> (py_lower (opt_get (deployment_environment r) []) = []
        \<or> env_matches (Deployment_Environment_Lower p)
             (py_lower (opt_get (deployment_environment r) [])))
     \<and> (requested_tokens r = []
        \<or> (\<exists>t \<in> set (requested_tokens r). keyword_loop p (keywords_to_check t)))
     \<and> (opt_get (power r) [] = []
        \<or> power_loop (product_text_for_power p) (opt_get (power r) []) [] \<noteq> [])"
  unfolding check_constraints_def
  by (simp only: power_step(3) connectivity_step(3) environment_step(3) frequency_band_step(3))
     (simp add: hc_init_def)

lemma length_explanation_check_constraints:
  "length (hc_explanation (check_constraints h p r)) = 4"
  unfolding check_constraints_def
  by (simp only: power_step(4) connectivity_step(4) environment_step(4) frequency_band_step(4))
     (simp add: hc_init_def)

lemma requested_tokens_absent: "elaborate r = None \<Longrightarrow> requested_tokens r = []"
  by (simp add: requested_tokens_def opt_get_def)

section \<open>The constraint evaluator\<close>

text \<open>
  C6. For every product, a requirement in which every constraint dimension is absent
  passes the evaluator with score 0, and the four dimension outcomes are all null.
\<close>

theorem unconstrained_requirement_passes:
  assumes "frequencyBand r = None" and "deployment_environment r = None"
    and "elaborate r = None" and "power r = None"
  shows "overall_pass (check_constraints h p r)
    \<and> hc_score (check_constraints h p r) = 0
    \<and> hc_details (check_constraints h p r) =
        [(''frequency_band'', None), (''environment'', None),
         (''connectivity'', None), (''power'', None)]"
  using assms
  by (simp add: overall_pass_check_constraints hc_score_check_constraints
      hc_details_check_constraints requested_tokens_absent opt_get_def py_lower_def)

theorem unconstrained_requirement_passes_witness:
  "frequencyBand unconstrained_requirement = None
   \<and> deployment_environment unconstrained_requirement = None
   \<and> elaborate unconstrained_requirement = None
   \<and> power unconstrained_requirement = None
   \<and> overall_pass (check_constraints hash_a gateway unconstrained_requirement)
   \<and> hc_score (check_constraints hash_a gateway unconstrained_requirement) = 0
   \<and> hc_details (check_constraints hash_a gateway unconstrained_requirement) =
        [(''frequency_band'', None), (''environment'', None),
         (''connectivity'', None), (''power'', None)]"
  using unconstrained_requirement_passes [of unconstrained_requirement hash_a gateway]
  by (simp add: unconstrained_requirement_def)

text \<open>
  C10. For every product and requirement the result has the same shape: the details
  hold exactly the keys \<open>frequency_band\<close>, \<open>environment\<close>, \<open>connectivity\<close> and \<open>power\<close>
  (in this order), the explanation has four entries, one for each dimension, and the
  product passes if and only if no detail is false.
\<close>

theorem check_constraints_shape:
  "map fst (hc_details (check_constraints h p r)) =
      [''frequency_band'', ''environment'', ''connectivity'', ''power'']
   \<and> length (hc_explanation (check_constraints h p r)) = 4
   \<and> (overall_pass (check_constraints h p r) \<longleftrightarrow>
        (\<forall>(k, v) \<in> set (hc_details (check_constraints h p r)). v \<noteq> Some False))"
  by (simp add: hc_details_check_constraints length_explanation_check_constraints
      overall_pass_check_constraints)

lemma gateway_details:
  "hc_details (check_constraints hash_a gateway gateway_requirement) =
     [(''frequency_band'', Some True), (''environment'', Some True),
      (''connectivity'', Some True), (''power'', Some True)]"
  by code_simp

theorem check_constraints_shape_witness:
  "(''connectivity'', Some True)
      \<in> set (hc_details (check_constraints hash_a gateway gateway_requirement))
   \<and> map fst (hc_details (check_constraints hash_a gateway gateway_requirement)) =
      [''frequency_band'', ''environment'', ''connectivity'', ''power'']
   \<and> length (hc_explanation (check_constraints hash_a gateway gateway_requirement)) = 4
   \<and> overall_pass (check_constraints hash_a gateway gateway_requirement)"
  using check_constraints_shape [of hash_a gateway gateway_requirement]
  by (simp add: gateway_details)

lemma preprocess_product_environment:
  "Deployment_Environment_Lower (preprocess_product c)
     = py_lower (Deployment_Environment (preprocess_product c))"
  by (simp add: preprocess_product_def)

lemma gateway_fields:
  "Deployment_Environment_Lower gateway = ''both''"
  "py_lower (Deployment_Environment gateway) = ''both''"
  "py_lower ''Indoor'' = ''indoor''"
  "Connectivity_List gateway = [''lorawan'', ''ethernet'']"
  "Connectivity_Lower_Text gateway = ''lorawan, ethernet''"
  "py_lower (Description_And_Application gateway @ CHR '' '' # Notes gateway)
     = ''solar and battery gateway back panel''"
  "requested_tokens gateway_requirement = [''lorawan'', ''ble'']"
  "requested_tokens (gateway_requirement\<lparr>elaborate := None\<rparr>) = []"
  "deployment_environment gateway_requirement = Some ''Indoor''"
  "power gateway_requirement = Some [''Battery Powered'', ''Solar Power'']"
  by code_simp+

lemma keywords_examples:
  "keywords_to_check ''lorawan'' = [''lorawan'', ''lora wan'']"
  "keywords_to_check ''ble'' = [''ble'', ''bluetooth low energy'', ''bluetooth le'']"
  "keywords_to_check '''' = ['''']"
  by code_simp+

lemma in_str_examples:
  "py_in_str ''ble'' ''lorawan, ethernet'' = False"
  "py_in_str ''bluetooth low energy'' ''lorawan, ethernet'' = False"
  "py_in_str ''bluetooth le'' ''lorawan, ethernet'' = False"
  by code_simp+

text \<open>
  The two products and the requirement of the examples beyond the gateway: the case
  mapping reaches the letters beyond ASCII.
\<close>

lemma environment_examples:
  "Deployment_Environment patio =
     [CHR ''E'', CHR ''x'', CHR ''t'', CHR 0xE9, CHR ''r'', CHR ''i'', CHR ''e'', CHR ''u'', CHR ''r'']"
  "py_lower (Deployment_Environment patio) =
     [CHR ''e'', CHR ''x'', CHR ''t'', CHR 0xE9, CHR ''r'', CHR ''i'', CHR ''e'', CHR ''u'', CHR ''r'']"
  "deployment_environment patio_requirement =
     Some [CHR ''E'', CHR ''X'', CHR ''T'', CHR 0xC9, CHR ''R'', CHR ''I'', CHR ''E'', CHR ''U'', CHR ''R'']"
  "py_lower [CHR ''E'', CHR ''X'', CHR ''T'', CHR 0xC9, CHR ''R'', CHR ''I'', CHR ''E'', CHR ''U'', CHR ''R'']
     = [CHR ''e'', CHR ''x'', CHR ''t'', CHR 0xE9, CHR ''r'', CHR ''i'', CHR ''e'', CHR ''u'', CHR ''r'']"
  "Deployment_Environment lamp = ''Outdoor''"
  "py_lower (Deployment_Environment lamp) = ''outdoor''"
  "Deployment_Environment_Lower patio = py_lower (Deployment_Environment patio)"
  "Deployment_Environment_Lower lamp = py_lower (Deployment_Environment lamp)"
  by code_simp+

text \<open>
  C5. For a product as the loader hands it over (its environment column lower-cased) and
  a requirement that names an environment, the environment dimension passes exactly
  when the two are equal without regard to case, or the requirement is \<open>both\<close> and the
  product is \<open>indoor\<close>, \<open>outdoor\<close>, \<open>both\<close> or unspecified, or the product is \<open>both\<close> and
  the requirement is \<open>indoor\<close> or \<open>outdoor\<close>; in every other case the dimension fails.
\<close>

theorem environment_dimension:
  assumes "Deployment_Environment_Lower p = py_lower (Deployment_Environment p)"
    and "deployment_environment r = Some e" and "e \<noteq> []"
  shows "map_of (hc_details (check_constraints h p r)) ''environment'' =
      Some (Some (py_lower (Deployment_Environment p) = py_lower e
         \<or> (py_lower e = ''both''
              \<and> py_lower (Deployment_Environment p) \<in> {''indoor'', ''outdoor'', ''both'', ''''})
         \<or> (py_lower (Deployment_Environment p) = ''both''
              \<and> py_lower e \<in> {''indoor'', ''outdoor''})))"
  using assms
  by (auto simp add: hc_details_check_constraints opt_get_def py_lower_empty env_matches_def)

theorem environment_dimension_witness:
  "Deployment_Environment_Lower gateway = py_lower (Deployment_Environment gateway)
   \<and> deployment_environment gateway_requirement = Some ''Indoor''
   \<and> map_of (hc_details (check_constraints hash_a gateway gateway_requirement)) ''environment''
       = Some (Some True)
   \<and> Deployment_Environment patio =
       [CHR ''E'', CHR ''x'', CHR ''t'', CHR 0xE9, CHR ''r'', CHR ''i'', CHR ''e'', CHR ''u'', CHR ''r'']
   \<and> deployment_environment patio_requirement =
       Some [CHR ''E'', CHR ''X'', CHR ''T'', CHR 0xC9, CHR ''R'', CHR ''I'', CHR ''E'', CHR ''U'', CHR ''R'']
   \<and> map_of (hc_details (check_constraints hash_a patio patio_requirement)) ''environment''
       = Some (Some True)
   \<and> Deployment_Environment lamp = ''Outdoor''
   \<and> map_of (hc_details (check_constraints hash_a lamp gateway_requirement)) ''environment''
       = Some (Some False)"
proof -
  have g: "map_of (hc_details (check_constraints hash_a gateway gateway_requirement))
      ''environment'' = Some (Some True)"
    using environment_dimension [where p = gateway and r = gateway_requirement
        and e = "''Indoor''" and h = hash_a]
    by (simp add: gateway_fields)
  have p: "map_of (hc_details (check_constraints hash_a patio patio_requirement))
      ''environment'' = Some (Some True)"
    using environment_dimension [where p = patio and r = patio_requirement
        and e = "[CHR ''E'', CHR ''X'', CHR ''T'', CHR 0xC9, CHR ''R'', CHR ''I'', CHR ''E'', CHR ''U'', CHR ''R'']"
        and h = hash_a]
    by (simp add: environment_examples(2,3,4,7))
  have l: "map_of (hc_details (check_constraints hash_a lamp gateway_requirement))
      ''environment'' = Some (Some False)"
    using environment_dimension [where p = lamp and r = gateway_requirement
        and e = "''Indoor''" and h = hash_a]
    by (simp add: environment_examples(6,8) gateway_fields(3,9))
  from g p l show ?thesis
    by (simp add: gateway_fields(1,2,9) environment_examples(1,3,5))
qed

text \<open>
  C1, as the code has it. For a requirement with at least one connectivity token, the
  connectivity dimension passes if and only if at least one requested token has a
  keyword that is an element of the product's connectivity list, or a substring of the
  product's connectivity text when that text is not empty; and the score grows by the
  connectivity weight once for each requested token that matched.
\<close>

theorem connectivity_dimension:
  assumes "requested_tokens r \<noteq> []"
  shows "map_of (hc_details (check_constraints h p r)) ''connectivity'' =
      Some (Some (\<exists>t \<in> set (requested_tokens r). \<exists>kw \<in> set (keywords_to_check t).
         kw \<in> set (Connectivity_List p)
         \<or> (Connectivity_Lower_Text p \<noteq> [] \<and> py_in_str kw (Connectivity_Lower_Text p))))
    \<and> hc_score (check_constraints h p r) =
        hc_score (check_constraints h p (r\<lparr>elaborate := None\<rparr>))
        + connectivity_option WEIGHTS
          * int (card {t \<in> set (requested_tokens r). \<exists>kw \<in> set (keywords_to_check t).
              kw \<in> set (Connectivity_List p)
              \<or> (Connectivity_Lower_Text p \<noteq> [] \<and> py_in_str kw (Connectivity_Lower_Text p))})"
  using assms
  by (simp add: hc_details_check_constraints hc_score_check_constraints keyword_loop_iff
      keyword_hit_def requested_tokens_absent)

theorem connectivity_dimension_witness:
  "requested_tokens gateway_requirement \<noteq> []
   \<and> map_of (hc_details (check_constraints hash_a gateway gateway_requirement)) ''connectivity''
       = Some (Some True)
   \<and> hc_score (check_constraints hash_a gateway gateway_requirement) =
       hc_score (check_constraints hash_a gateway (gateway_requirement\<lparr>elaborate := None\<rparr>)) + 2"
proof -
  have "{t \<in> set [''lorawan'', ''ble'']. \<exists>kw \<in> set (keywords_to_check t).
            kw \<in> set (Connectivity_List gateway)
            \<or> (Connectivity_Lower_Text gateway \<noteq> []
                 \<and> py_in_str kw (Connectivity_Lower_Text gateway))}
        = {''lorawan''}"
    by (auto simp add: keywords_examples gateway_fields in_str_examples)
  then show ?thesis
    using connectivity_dimension [where p = gateway and r = gateway_requirement and h = hash_a]
    by (simp add: gateway_fields keywords_examples WEIGHTS_def)
qed

text \<open>
  C1 as stated fails where the product has no connectivity text: the blank token has the
  blank keyword, which is a substring of the empty text, and yet the dimension fails.
\<close>

theorem connectivity_blank_token_counterexample:
  "requested_tokens blank_token_requirement \<noteq> []
   \<and> '''' \<in> set (requested_tokens blank_token_requirement)
   \<and> '''' \<in> set (keywords_to_check '''')
   \<and> py_in_str '''' (Connectivity_Lower_Text bare_product)
   \<and> map_of (hc_details (check_constraints hash_a bare_product blank_token_requirement))
        ''connectivity'' = Some (Some False)"
  by code_simp

lemma power_examples:
  "dict_get POWER_KEYWORD_MAPPING ''Battery Powered'' []
     = [''battery'', ''batteries'', ''battery-powered'']"
  "dict_get POWER_KEYWORD_MAPPING ''Solar Power'' [] = [''solar'', ''solar power'', ''solar-powered'']"
  "re_search_word ''battery'' ''solar and battery gateway back panel'' = True"
  "re_search_word ''solar'' ''solar and battery gateway back panel'' = True"
  by code_simp+

text \<open>
  The word boundaries at work: \<open>ac\<close> occurs inside \<open>back\<close> but is not found as a word,
  a hyphen ends a word, and the micro sign U+00B5 is a \<open>\w\<close> character, so that no word
  begins after it.
\<close>

lemma word_boundary_examples:
  "py_in_str ''ac'' ''solar and battery gateway back panel'' = True"
  "re_search_word ''ac'' ''solar and battery gateway back panel'' = False"
  "re_search_word ''battery'' ''battery-powered node'' = True"
  "re_search_word ''battery'' ''batteries included'' = False"
  "py_in_str ''solar'' (CHR 0xB5 # ''solar cell'') = True"
  "re_search_word ''solar'' (CHR 0xB5 # ''solar cell'') = False"
  by code_simp+

text \<open>
  The lamp holds \<open>ac power\<close> inside \<open>zodiac power\<close> and \<open>solar\<close> inside \<open>solarium\<close>, and
  neither between word boundaries.
\<close>

lemma lamp_power:
  "power mains_requirement = Some [''AC Power'', ''Solar Power'']"
  "py_lower (Description_And_Application lamp @ '' '' @ Notes lamp)
     = ''zodiac power solarium back panel''"
  "py_in_str ''ac power'' ''zodiac power solarium back panel'' = True"
  "py_in_str ''solar'' ''zodiac power solarium back panel'' = True"
  "map_of (hc_details (check_constraints hash_a lamp mains_requirement)) ''power''
     = Some (Some False)"
  "map_of (hc_details (check_constraints hash_a gateway gateway_requirement)) ''power''
     = Some (Some True)"
  by code_simp+

text \<open>
  C2. For a requirement with at least one power label, the power dimension passes if and
  only if some requested label has a keyword phrase that occurs between word boundaries
  in the lower-cased description and notes joined by a blank: the text splits into a
  part before, the phrase and a part after, and at each end of the phrase exactly one
  of the two neighbouring characters is a \<open>\w\<close> character (a missing neighbour counts as
  none). An occurrence inside a longer word does not count. The power weight is added to
  the score once if the dimension passes and not at all otherwise, however many labels
  and phrases match.
\<close>

theorem power_dimension:
  assumes "power r = Some labels" and "labels \<noteq> []"
  shows "map_of (hc_details (check_constraints h p r)) ''power'' =
      Some (Some (\<exists>l \<in> set labels. \<exists>kw \<in> set (dict_get POWER_KEYWORD_MAPPING l []).
         \<exists>pre post. py_lower (Description_And_Application p @ '' '' @ Notes p) = pre @ kw @ post
           \<and> (pre \<noteq> [] \<and> is_word_char (last pre))
               \<noteq> (kw @ post \<noteq> [] \<and> is_word_char (hd (kw @ post)))
           \<and> (pre @ kw \<noteq> [] \<and> is_word_char (last (pre @ kw)))
               \<noteq> (post \<noteq> [] \<and> is_word_char (hd post))))
    \<and> hc_score (check_constraints h p r) =
        hc_score (check_constraints h p (r\<lparr>power := None\<rparr>))
        + (if \<exists>l \<in> set labels. \<exists>kw \<in> set (dict_get POWER_KEYWORD_MAPPING l []).
              \<exists>pre post. py_lower (Description_And_Application p @ '' '' @ Notes p) = pre @ kw @ post
                \<and> (pre \<noteq> [] \<and> is_word_char (last pre))
                    \<noteq> (kw @ post \<noteq> [] \<and> is_word_char (hd (kw @ post)))
                \<and> (pre @ kw \<noteq> [] \<and> is_word_char (last (pre @ kw)))
                    \<noteq> (post \<noteq> [] \<and> is_word_char (hd post))
           then power_keyword WEIGHTS else 0)"
proof -
  have "map_of (hc_details (check_constraints h p r)) ''power'' =
      Some (Some (\<exists>l \<in> set labels. \<exists>kw \<in> set (dict_get POWER_KEYWORD_MAPPING l []).
         re_search_word kw (py_lower (Description_And_Application p @ '' '' @ Notes p))))
    \<and> hc_score (check_constraints h p r) =
        hc_score (check_constraints h p (r\<lparr>power := None\<rparr>))
        + (if \<exists>l \<in> set labels. \<exists>kw \<in> set (dict_get POWER_KEYWORD_MAPPING l []).
              re_search_word kw (py_lower (Description_And_Application p @ '' '' @ Notes p))
           then power_keyword WEIGHTS else 0)"
    using assms
    by (simp add: hc_details_check_constraints hc_score_check_constraints power_loop_empty
        power_keyword_loop_None product_text_for_power_def opt_get_def requested_tokens_def)
  then show ?thesis
    unfolding re_search_word_iff .
qed

theorem power_dimension_witness:
  "power gateway_requirement = Some [''Battery Powered'', ''Solar Power'']
   \<and> map_of (hc_details (check_constraints hash_a gateway gateway_requirement)) ''power''
       = Some (Some True)
   \<and> hc_score (check_constraints hash_a gateway gateway_requirement) =
       hc_score (check_constraints hash_a gateway (gateway_requirement\<lparr>power := None\<rparr>)) + 1
   \<and> power mains_requirement = Some [''AC Power'', ''Solar Power'']
   \<and> py_in_str ''ac power'' (py_lower (Description_And_Application lamp @ '' '' @ Notes lamp))
   \<and> py_in_str ''solar'' (py_lower (Description_And_Application lamp @ '' '' @ Notes lamp))
   \<and> map_of (hc_details (check_constraints hash_a lamp mains_requirement)) ''power''
       = Some (Some False)
   \<and> hc_score (check_constraints hash_a lamp mains_requirement) =
       hc_score (check_constraints hash_a lamp (mains_requirement\<lparr>power := None\<rparr>))"
proof -
  define G where "G \<longleftrightarrow>
     (\<exists>l \<in> set [''Battery Powered'', ''Solar Power''].
        \<exists>kw \<in> set (dict_get POWER_KEYWORD_MAPPING l []).
         \<exists>pre post. py_lower (Description_And_Application gateway @ '' '' @ Notes gateway)
             = pre @ kw @ post
           \<and> (pre \<noteq> [] \<and> is_word_char (last pre))
               \<noteq> (kw @ post \<noteq> [] \<and> is_word_char (hd (kw @ post)))
           \<and> (pre @ kw \<noteq> [] \<and> is_word_char (last (pre @ kw)))
               \<noteq> (post \<noteq> [] \<and> is_word_char (hd post)))"
  define L where "L \<longleftrightarrow>
     (\<exists>l \<in> set [''AC Power'', ''Solar Power''].
        \<exists>kw \<in> set (dict_get POWER_KEYWORD_MAPPING l []).
         \<exists>pre post. py_lower (Description_And_Application lamp @ '' '' @ Notes lamp)
             = pre @ kw @ post
           \<and> (pre \<noteq> [] \<and> is_word_char (last pre))
               \<noteq> (kw @ post \<noteq> [] \<and> is_word_char (hd (kw @ post)))
           \<and> (pre @ kw \<noteq> [] \<and> is_word_char (last (pre @ kw)))
               \<noteq> (post \<noteq> [] \<and> is_word_char (hd post)))"
  have ne: "[''Battery Powered'', ''Solar Power''] \<noteq> []" "[''AC Power'', ''Solar Power''] \<noteq> []"
    by simp_all
  have g: "map_of (hc_details (check_constraints hash_a gateway gateway_requirement)) ''power''
        = Some (Some G)
      \<and> hc_score (check_constraints hash_a gateway gateway_requirement) =
        hc_score (check_constraints hash_a gateway (gateway_requirement\<lparr>power := None\<rparr>))
        + (if G then power_keyword WEIGHTS else 0)"
    unfolding G_def
    by (rule power_dimension [OF gateway_fields(10) ne(1)])
  have l: "map_of (hc_details (check_constraints hash_a lamp mains_requirement)) ''power''
        = Some (Some L)
      \<and> hc_score (check_constraints hash_a lamp mains_requirement) =
        hc_score (check_constraints hash_a lamp (mains_requirement\<lparr>power := None\<rparr>))
        + (if L then power_keyword WEIGHTS else 0)"
    unfolding L_def
    by (rule power_dimension [OF lamp_power(1) ne(2)])
  have G using g lamp_power(6) by simp
  then have gs: "hc_score (check_constraints hash_a gateway gateway_requirement) =
      hc_score (check_constraints hash_a gateway (gateway_requirement\<lparr>power := None\<rparr>)) + 1"
    using g by (simp add: WEIGHTS_def)
  have "\<not> L" using l lamp_power(5) by simp
  then have ls: "hc_score (check_constraints hash_a lamp mains_requirement) =
      hc_score (check_constraints hash_a lamp (mains_requirement\<lparr>power := None\<rparr>))"
    using l by simp
  have t: "py_lower (Description_And_Application lamp @ '' '' @ Notes lamp)
      = ''zodiac power solarium back panel''"
    by (rule lamp_power(2))
  show ?thesis
    unfolding t
    using gs ls
    by (simp add: gateway_fields(10) lamp_power(1,3,4,5,6))
qed

subsection \<open>Slicing, sorting and the list of candidates\<close>

lemma insort_key_map:
  "map f (insort_key (\<lambda>x. k (f x)) x xs) = insort_key k (f x) (map f xs)"
  by (induction xs) simp_all

lemma sort_key_map: "map f (sort_key (\<lambda>x. k (f x)) xs) = sort_key k (map f xs)"
  by (induction xs) (simp_all add: insort_key_map)

lemma py_slice_to_0: "py_slice_to 0 xs = []"
  by (simp add: py_slice_to_def)

lemma py_slice_to_all: "int (length xs) \<le> n \<Longrightarrow> py_slice_to n xs = xs"
  by (simp add: py_slice_to_def)

lemma length_py_slice_to: "0 \<le> n \<Longrightarrow> length (py_slice_to n xs) = min (nat n) (length xs)"
  by (simp add: py_slice_to_def)

lemma py_slice_to_is_take: "\<exists>k. py_slice_to n xs = take k xs"
  by (auto simp add: py_slice_to_def)

lemma length_fold_update:
  "length (fold (\<lambda>(i, v) col. col[f i := v]) ivs col0) = length col0"
  by (induction ivs arbitrary: col0) (auto simp: case_prod_beta)

lemma length_similarity_score_temp:
  "length (similarity_score_temp embeddings sims) = length embeddings"
  by (simp add: similarity_score_temp_def Let_def length_fold_update)

lemma length_soft_match: "length (fst (soft_match sm r candidates)) = length candidates"
  by (auto simp add: soft_match_def Let_def length_similarity_score_temp
      split: option.splits list.splits)

lemma recommend_eq:
  "fst (recommend sm h products_df r top_n) =
     rank_and_format top_n (fst (soft_match sm r (hard_constraint_results h products_df r)))"
proof (cases "hard_constraint_results h products_df r = []")
  case True
  then have "fst (soft_match sm r (hard_constraint_results h products_df r)) = []"
    using length_soft_match [of sm r "hard_constraint_results h products_df r"] by simp
  with True show ?thesis
    by (simp add: recommend_def Let_def rank_and_format_def py_slice_to_def)
next
  case False
  then have "products_df \<noteq> []" by (auto simp: hard_constraint_results_def)
  with False show ?thesis
    by (simp add: recommend_def Let_def split: prod.splits)
qed

lemma final_score_format_output: "Final_Score (format_output d) = final_score d"
  by (simp add: format_output_def)

lemma sorted_desc_ranked:
  "sorted_wrt (\<lambda>a b. Final_Score b \<le> Final_Score a) (rank_and_format n ds)"
proof -
  have s: "sorted (map (\<lambda>x. - final_score x) (sort_key (\<lambda>x. - final_score x) ds))"
    by (rule sorted_sort_key)
  obtain k where k: "py_slice_to n (sort_key (\<lambda>x. - final_score x) ds)
      = take k (sort_key (\<lambda>x. - final_score x) ds)"
    using py_slice_to_is_take by blast
  have "sorted (map (\<lambda>x. - final_score x) (take k (sort_key (\<lambda>x. - final_score x) ds)))"
    using s by (simp add: take_map [symmetric] sorted_wrt_take)
  then have "sorted_wrt (\<lambda>a b. final_score b \<le> final_score a)
      (take k (sort_key (\<lambda>x. - final_score x) ds))"
    by (simp add: sorted_map sorted_wrt_map)
  then show ?thesis
    by (simp add: rank_and_format_def k sorted_wrt_map final_score_format_output)
qed

lemma stable_ranking:
  "filter (\<lambda>x. Final_Score x = k) (map format_output (sort_key (\<lambda>x. - final_score x) ds))
     = map format_output (filter (\<lambda>d. final_score d = k) ds)"
proof -
  have "filter (\<lambda>d. - final_score d = - k) (sort_key (\<lambda>x. - final_score x) ds)
      = filter (\<lambda>d. - final_score d = - k) ds"
    by (rule sort_key_stable)
  then have "filter (\<lambda>d. final_score d = k) (sort_key (\<lambda>x. - final_score x) ds)
      = filter (\<lambda>d. final_score d = k) ds"
    by simp
  then show ?thesis
    by (simp add: filter_map comp_def final_score_format_output)
qed

lemma length_rank_and_format:
  "int (length ds) \<le> n \<Longrightarrow> rank_and_format n ds = map format_output (sort_key (\<lambda>x. - final_score x) ds)"
  by (simp add: rank_and_format_def py_slice_to_all)

lemma length_hard_constraint_results:
  "length (hard_constraint_results h products_df r) \<le> length products_df"
  by (simp add: hard_constraint_results_def)

lemma rank_and_format_eq:
  "rank_and_format n ds = py_slice_to n (sort_key (\<lambda>x. - Final_Score x) (map format_output ds))"
proof -
  have "map format_output (sort_key (\<lambda>x. - Final_Score (format_output x)) ds)
      = sort_key (\<lambda>x. - Final_Score x) (map format_output ds)"
    by (rule sort_key_map)
  then have "map format_output (sort_key (\<lambda>x. - final_score x) ds)
      = sort_key (\<lambda>x. - Final_Score x) (map format_output ds)"
    by (simp add: final_score_format_output)
  moreover have "rank_and_format n ds
      = py_slice_to n (map format_output (sort_key (\<lambda>x. - final_score x) ds))"
    by (simp add: rank_and_format_def py_slice_to_def take_map)
  ultimately show ?thesis
    by (simp only:)
qed

lemma sm_degraded:
  assumes "model sm = None \<or> py_strip (build_requirement_query r) = []"
  shows "soft_match sm r cands =
     (map (no_similarity_data ''Text Similarity: 0.00 (Query empty or model issue)'') cands,
      [Build_requirement_query])"
  using assms by (auto simp add: soft_match_def Let_def)

lemma format_no_similarity_data:
  "map format_output (map (no_similarity_data note) cands) =
     map (\<lambda>(p, res).
            \<lparr>rec_Product_ID = Product_ID p, rec_Product_Name = Product_Name p,
             Hard_Constraints_Passed_Details = hc_details res,
             Text_Similarity = 0, Final_Score = of_int (hc_score res),
             Explanation_Details = hc_explanation res @ [note]\<rparr>) cands"
  unfolding map_map
  by (rule map_cong [OF refl])
     (simp add: format_output_def no_similarity_data_def split: prod.splits)

lemma recommend_degraded:
  assumes "hard_constraint_results h products_df r \<noteq> []"
    and "model sm = None \<or> py_strip (build_requirement_query r) = []"
  shows "recommend sm h products_df r top_n =
      (py_slice_to top_n (sort_key (\<lambda>x. - Final_Score x)
         (map (\<lambda>(p, res).
                \<lparr>rec_Product_ID = Product_ID p, rec_Product_Name = Product_Name p,
                 Hard_Constraints_Passed_Details = hc_details res,
                 Text_Similarity = 0, Final_Score = of_int (hc_score res),
                 Explanation_Details = hc_explanation res
                   @ [''Text Similarity: 0.00 (Query empty or model issue)'']\<rparr>)
            (hard_constraint_results h products_df r))),
       [Build_requirement_query])"
proof -
  have ne: "products_df \<noteq> []"
    using assms(1) by (auto simp add: hard_constraint_results_def)
  have "recommend sm h products_df r top_n =
      (rank_and_format top_n
         (map (no_similarity_data ''Text Similarity: 0.00 (Query empty or model issue)'')
            (hard_constraint_results h products_df r)),
       [Build_requirement_query])"
    using ne assms(1) by (simp add: recommend_def Let_def sm_degraded [OF assms(2)])
  then show ?thesis
    by (simp only: rank_and_format_eq format_no_similarity_data)
qed

lemma set_py_slice_to: "set (py_slice_to n xs) \<subseteq> set xs"
  by (auto simp add: py_slice_to_def dest: in_set_takeD)

lemma in_hard_constraint_results:
  "(p, res) \<in> set (hard_constraint_results h products_df r) \<longleftrightarrow>
     p \<in> set products_df \<and> res = check_constraints h p r \<and> overall_pass res"
  by (auto simp add: hard_constraint_results_def)

lemma ranked_record_origin:
  assumes "x \<in> set (py_slice_to n (sort_key k
      (map (\<lambda>(p, res). F p res) (hard_constraint_results h products_df r))))"
  shows "\<exists>p \<in> set products_df. overall_pass (check_constraints h p r)
      \<and> x = F p (check_constraints h p r)"
proof -
  have "x \<in> set (sort_key k (map (\<lambda>(p, res). F p res) (hard_constraint_results h products_df r)))"
    by (rule subsetD [OF set_py_slice_to assms])
  then have "x \<in> set (map (\<lambda>(p, res). F p res) (hard_constraint_results h products_df r))"
    by (simp only: set_sort)
  then obtain c where c: "c \<in> set (hard_constraint_results h products_df r)"
      and x: "x = (\<lambda>(p, res). F p res) c"
    by (auto simp only: set_map)
  obtain p res where pr: "c = (p, res)"
    by (cases c)
  from c pr have "(p, res) \<in> set (hard_constraint_results h products_df r)"
    by simp
  then have "p \<in> set products_df \<and> res = check_constraints h p r \<and> overall_pass res"
    by (rule iffD1 [OF in_hard_constraint_results])
  then have "p \<in> set products_df" and "res = check_constraints h p r"
      and "overall_pass (check_constraints h p r)"
    by auto
  moreover from x pr have "x = F p res"
    by simp
  ultimately show ?thesis
    by blast
qed

section \<open>The ranking engine\<close>

text \<open>
  C8. If the catalog is empty or no product passes the hard constraints, \<open>recommend\<close>
  returns the empty list, and it does so without a single call on the soft matcher: no
  query is built and nothing is embedded.
\<close>

theorem no_candidates_no_work:
  assumes "products_df = [] \<or> hard_constraint_results h products_df r = []"
  shows "recommend sm h products_df r top_n = ([], [])"
  using assms by (auto simp add: recommend_def Let_def)

lemma blank_token_no_candidates:
  "hard_constraint_results hash_a [bare_product] blank_token_requirement = []"
  by code_simp

theorem no_candidates_no_work_witness:
  "([bare_product] = [] \<or> hard_constraint_results hash_a [bare_product] blank_token_requirement = [])
   \<and> recommend working_matcher hash_a [bare_product] blank_token_requirement 3 = ([], [])"
  using no_candidates_no_work [where products_df = "[bare_product]" and h = hash_a
      and r = blank_token_requirement and sm = working_matcher and top_n = 3]
  by (simp add: blank_token_no_candidates)

text \<open>
  C3. When at least one candidate survives and the model is unavailable or the query
  text is empty, \<open>recommend\<close> returns a list and makes no call on the soft matcher but
  the one that builds the query. The list holds one record for each candidate, with
  similarity 0, a final score equal to the rule score of the candidate and the
  explanation of the rule check followed by the note; these records are sorted by final
  score, highest first, and cut to \<open>top_n\<close>. So every record returned has similarity 0,
  the rule score of a product that passed as its final score, and the note at the end of
  its explanation.
\<close>

theorem degraded_mode:
  assumes "hard_constraint_results h products_df r \<noteq> []"
    and "model sm = None \<or> py_strip (build_requirement_query r) = []"
  shows "recommend sm h products_df r top_n =
      (py_slice_to top_n (sort_key (\<lambda>x. - Final_Score x)
         (map (\<lambda>(p, res).
                \<lparr>rec_Product_ID = Product_ID p, rec_Product_Name = Product_Name p,
                 Hard_Constraints_Passed_Details = hc_details res,
                 Text_Similarity = 0, Final_Score = of_int (hc_score res),
                 Explanation_Details = hc_explanation res
                   @ [''Text Similarity: 0.00 (Query empty or model issue)'']\<rparr>)
            (hard_constraint_results h products_df r))),
       [Build_requirement_query])
    \<and> (\<forall>x \<in> set (fst (recommend sm h products_df r top_n)).
         Text_Similarity x = 0
         \<and> (\<exists>p \<in> set products_df. overall_pass (check_constraints h p r)
              \<and> rec_Product_ID x = Product_ID p
              \<and> Final_Score x = of_int (hc_score (check_constraints h p r))
              \<and> Explanation_Details x = hc_explanation (check_constraints h p r)
                   @ [''Text Similarity: 0.00 (Query empty or model issue)'']))
    \<and> sorted_wrt (\<lambda>a b. Final_Score b \<le> Final_Score a) (fst (recommend sm h products_df r top_n))
    \<and> (0 \<le> top_n \<longrightarrow> length (fst (recommend sm h products_df r top_n)) =
          min (nat top_n) (length (hard_constraint_results h products_df r)))"
proof -
  let ?note = "''Text Similarity: 0.00 (Query empty or model issue)''"
  let ?out = "\<lambda>p res.
      \<lparr>rec_Product_ID = Product_ID p, rec_Product_Name = Product_Name p,
       Hard_Constraints_Passed_Details = hc_details res,
       Text_Similarity = 0, Final_Score = of_int (hc_score res),
       Explanation_Details = hc_explanation res @ [?note]\<rparr>"
  let ?ranked = "sort_key (\<lambda>x. - Final_Score x)
      (map (\<lambda>(p, res). ?out p res) (hard_constraint_results h products_df r))"
  have rec: "recommend sm h products_df r top_n =
      (py_slice_to top_n ?ranked, [Build_requirement_query])"
    using assms by (rule recommend_degraded)
  have each: "\<forall>x \<in> set (fst (recommend sm h products_df r top_n)).
         Text_Similarity x = 0
         \<and> (\<exists>p \<in> set products_df. overall_pass (check_constraints h p r)
              \<and> rec_Product_ID x = Product_ID p
              \<and> Final_Score x = of_int (hc_score (check_constraints h p r))
              \<and> Explanation_Details x = hc_explanation (check_constraints h p r) @ [?note])"
  proof
    fix x
    assume "x \<in> set (fst (recommend sm h products_df r top_n))"
    then have "x \<in> set (py_slice_to top_n ?ranked)"
      by (simp only: rec fst_conv)
    then obtain p where p: "p \<in> set products_df" "overall_pass (check_constraints h p r)"
        and x: "x = ?out p (check_constraints h p r)"
      using ranked_record_origin [of x top_n "\<lambda>x. - Final_Score x" ?out h products_df r]
      by blast
    have "Text_Similarity x = 0" "rec_Product_ID x = Product_ID p"
        "Final_Score x = of_int (hc_score (check_constraints h p r))"
        "Explanation_Details x = hc_explanation (check_constraints h p r) @ [?note]"
      unfolding x by simp_all
    with p show "Text_Similarity x = 0
         \<and> (\<exists>p \<in> set products_df. overall_pass (check_constraints h p r)
              \<and> rec_Product_ID x = Product_ID p
              \<and> Final_Score x = of_int (hc_score (check_constraints h p r))
              \<and> Explanation_Details x = hc_explanation (check_constraints h p r) @ [?note])"
      by blast
  qed
  have srt: "sorted_wrt (\<lambda>a b. Final_Score b \<le> Final_Score a)
      (fst (recommend sm h products_df r top_n))"
    by (simp add: recommend_eq sorted_desc_ranked)
  have len: "0 \<le> top_n \<longrightarrow> length (fst (recommend sm h products_df r top_n)) =
          min (nat top_n) (length (hard_constraint_results h products_df r))"
  proof
    assume "0 \<le> top_n"
    then have "length (py_slice_to top_n ?ranked) = min (nat top_n) (length ?ranked)"
      by (rule length_py_slice_to)
    then show "length (fst (recommend sm h products_df r top_n)) =
          min (nat top_n) (length (hard_constraint_results h products_df r))"
      by (simp only: rec fst_conv length_sort length_map)
  qed
  show ?thesis
    by (rule conjI [OF rec conjI [OF each conjI [OF srt len]]])
qed

text \<open>
  C7, as the code has it. \<open>recommend\<close> sorts the candidates by final score, highest
  first, with a stable sort (records with equal final score keep the catalog order), and
  cuts the ranking to \<open>top_n\<close>: \<open>top_n = 0\<close> gives the empty list, and a \<open>top_n\<close> of at
  least the number of candidates gives all of them. The default of \<open>top_n\<close> is 5.
\<close>

theorem ranking_and_truncation:
  "sorted_wrt (\<lambda>a b. Final_Score b \<le> Final_Score a) (fst (recommend sm h products_df r top_n))
   \<and> fst (recommend sm h products_df r top_n) =
       py_slice_to top_n (fst (recommend sm h products_df r (int (length products_df))))
   \<and> (\<forall>k. filter (\<lambda>x. Final_Score x = k)
            (fst (recommend sm h products_df r (int (length products_df))))
          = map format_output (filter (\<lambda>d. final_score d = k)
              (fst (soft_match sm r (hard_constraint_results h products_df r)))))
   \<and> fst (recommend sm h products_df r 0) = []
   \<and> (int (length (hard_constraint_results h products_df r)) \<le> top_n \<longrightarrow>
        length (fst (recommend sm h products_df r top_n))
          = length (hard_constraint_results h products_df r))
   \<and> recommend_default sm h products_df r = recommend sm h products_df r 5"
proof -
  let ?ds = "fst (soft_match sm r (hard_constraint_results h products_df r))"
  have len: "length ?ds = length (hard_constraint_results h products_df r)"
    by (rule length_soft_match)
  have le: "int (length ?ds) \<le> int (length products_df)"
    using length_hard_constraint_results [of h products_df r] len by simp
  have full: "fst (recommend sm h products_df r (int (length products_df))) =
      map format_output (sort_key (\<lambda>x. - final_score x) ?ds)"
    using le by (simp add: recommend_eq length_rank_and_format)
  have a: "sorted_wrt (\<lambda>a b. Final_Score b \<le> Final_Score a)
      (fst (recommend sm h products_df r top_n))"
    by (simp add: recommend_eq sorted_desc_ranked)
  have b: "fst (recommend sm h products_df r top_n) =
       py_slice_to top_n (fst (recommend sm h products_df r (int (length products_df))))"
    unfolding full
    by (simp add: recommend_eq rank_and_format_def py_slice_to_def take_map)
  have c: "\<forall>k. filter (\<lambda>x. Final_Score x = k)
            (fst (recommend sm h products_df r (int (length products_df))))
          = map format_output (filter (\<lambda>d. final_score d = k) ?ds)"
    unfolding full by (simp add: stable_ranking)
  have d: "fst (recommend sm h products_df r 0) = []"
    by (simp add: recommend_eq rank_and_format_def py_slice_to_0)
  have e: "int (length (hard_constraint_results h products_df r)) \<le> top_n \<longrightarrow>
        length (fst (recommend sm h products_df r top_n))
          = length (hard_constraint_results h products_df r)"
    using len by (simp add: recommend_eq length_rank_and_format)
  have f: "recommend_default sm h products_df r = recommend sm h products_df r 5"
    by (simp add: recommend_default_def)
  from a b c d e f show ?thesis by blast
qed

lemma example_candidates:
  "length (hard_constraint_results hash_a [gateway] power_requirement) = 1"
  "length (hard_constraint_results hash_a four_products unconstrained_requirement) = 4"
  "length four_products = 4"
  by code_simp+

text \<open>
  The two degraded runs of the examples: the gateway with a model that failed to load,
  and four products with a working model and a requirement that gives an empty query.
\<close>

lemma degraded_examples:
  "map (\<lambda>x. (rec_Product_ID x, Text_Similarity x, Final_Score x, last (Explanation_Details x)))
     (py_slice_to 3 (sort_key (\<lambda>x. - Final_Score x)
        (map (\<lambda>(p, res).
               \<lparr>rec_Product_ID = Product_ID p, rec_Product_Name = Product_Name p,
                Hard_Constraints_Passed_Details = hc_details res,
                Text_Similarity = 0, Final_Score = of_int (hc_score res),
                Explanation_Details = hc_explanation res
                  @ [''Text Similarity: 0.00 (Query empty or model issue)'']\<rparr>)
           (hard_constraint_results hash_a [gateway] power_requirement))))
   = [(''P1'', 0, 1, ''Text Similarity: 0.00 (Query empty or model issue)'')]"
  "map (\<lambda>x. (rec_Product_ID x, Text_Similarity x, Final_Score x, last (Explanation_Details x)))
     (py_slice_to 3 (sort_key (\<lambda>x. - Final_Score x)
        (map (\<lambda>(p, res).
               \<lparr>rec_Product_ID = Product_ID p, rec_Product_Name = Product_Name p,
                Hard_Constraints_Passed_Details = hc_details res,
                Text_Similarity = 0, Final_Score = of_int (hc_score res),
                Explanation_Details = hc_explanation res
                  @ [''Text Similarity: 0.00 (Query empty or model issue)'']\<rparr>)
           (hard_constraint_results hash_a four_products unconstrained_requirement))))
   = [(''A'', 0, 0, ''Text Similarity: 0.00 (Query empty or model issue)''),
      (''B'', 0, 0, ''Text Similarity: 0.00 (Query empty or model issue)''),
      (''C'', 0, 0, ''Text Similarity: 0.00 (Query empty or model issue)'')]"
  "py_strip (build_requirement_query unconstrained_requirement) = []"
  "hc_score (check_constraints hash_a gateway power_requirement) = 1"
  by code_simp+

theorem degraded_mode_witness:
  "model broken_matcher = None
   \<and> length (hard_constraint_results hash_a [gateway] power_requirement) = 1
   \<and> hc_score (check_constraints hash_a gateway power_requirement) = 1
   \<and> map (\<lambda>x. (rec_Product_ID x, Text_Similarity x, Final_Score x, last (Explanation_Details x)))
        (fst (recommend broken_matcher hash_a [gateway] power_requirement 3))
       = [(''P1'', 0, 1, ''Text Similarity: 0.00 (Query empty or model issue)'')]
   \<and> snd (recommend broken_matcher hash_a [gateway] power_requirement 3)
       = [Build_requirement_query]
   \<and> py_strip (build_requirement_query unconstrained_requirement) = []
   \<and> length (hard_constraint_results hash_a four_products unconstrained_requirement) = 4
   \<and> map (\<lambda>x. (rec_Product_ID x, Text_Similarity x, Final_Score x, last (Explanation_Details x)))
        (fst (recommend working_matcher hash_a four_products unconstrained_requirement 3))
       = [(''A'', 0, 0, ''Text Similarity: 0.00 (Query empty or model issue)''),
          (''B'', 0, 0, ''Text Similarity: 0.00 (Query empty or model issue)''),
          (''C'', 0, 0, ''Text Similarity: 0.00 (Query empty or model issue)'')]
   \<and> snd (recommend working_matcher hash_a four_products unconstrained_requirement 3)
       = [Build_requirement_query]"
proof -
  have ne1: "hard_constraint_results hash_a [gateway] power_requirement \<noteq> []"
    using example_candidates(1) by auto
  have m1: "model broken_matcher = None
      \<or> py_strip (build_requirement_query power_requirement) = []"
    by (simp add: broken_matcher_def)
  have ne2: "hard_constraint_results hash_a four_products unconstrained_requirement \<noteq> []"
    using example_candidates(2) by auto
  have m2: "model working_matcher = None
      \<or> py_strip (build_requirement_query unconstrained_requirement) = []"
    by (simp add: degraded_examples(3))
  note t1 = degraded_mode [OF ne1 m1, of 3, THEN conjunct1]
  note t2 = degraded_mode [OF ne2 m2, of 3, THEN conjunct1]
  have a: "map (\<lambda>x. (rec_Product_ID x, Text_Similarity x, Final_Score x,
                      last (Explanation_Details x)))
        (fst (recommend broken_matcher hash_a [gateway] power_requirement 3))
       = [(''P1'', 0, 1, ''Text Similarity: 0.00 (Query empty or model issue)'')]"
    by (simp only: t1 fst_conv degraded_examples(1))
  have b: "map (\<lambda>x. (rec_Product_ID x, Text_Similarity x, Final_Score x,
                      last (Explanation_Details x)))
        (fst (recommend working_matcher hash_a four_products unconstrained_requirement 3))
       = [(''A'', 0, 0, ''Text Similarity: 0.00 (Query empty or model issue)''),
          (''B'', 0, 0, ''Text Similarity: 0.00 (Query empty or model issue)''),
          (''C'', 0, 0, ''Text Similarity: 0.00 (Query empty or model issue)'')]"
    by (simp only: t2 fst_conv degraded_examples(2))
  have c: "snd (recommend broken_matcher hash_a [gateway] power_requirement 3)
       = [Build_requirement_query]"
    by (simp only: t1 snd_conv)
  have d: "snd (recommend working_matcher hash_a four_products unconstrained_requirement 3)
       = [Build_requirement_query]"
    by (simp only: t2 snd_conv)
  have e: "model broken_matcher = None"
    by (simp add: broken_matcher_def)
  from a b c d e example_candidates(1,2) degraded_examples(3,4) show ?thesis
    by blast
qed

theorem ranking_and_truncation_witness:
  "int (length (hard_constraint_results hash_a four_products unconstrained_requirement)) \<le> 5
   \<and> length (fst (recommend broken_matcher hash_a four_products unconstrained_requirement 5)) = 4
   \<and> fst (recommend broken_matcher hash_a four_products unconstrained_requirement 0) = []"
proof -
  note t = ranking_and_truncation [where sm = broken_matcher and h = hash_a
      and products_df = four_products and r = unconstrained_requirement and top_n = 5]
  note t4 = t [THEN conjunct2, THEN conjunct2, THEN conjunct2, THEN conjunct1]
  note t5 = t [THEN conjunct2, THEN conjunct2, THEN conjunct2, THEN conjunct2, THEN conjunct1]
  have "length (fst (recommend broken_matcher hash_a four_products unconstrained_requirement 5)) = 4"
    using t5 by (simp add: example_candidates(2))
  with t4 show ?thesis by (simp add: example_candidates(2))
qed

text \<open>
  C7 as stated fails on the default: called without \<open>top_n\<close> on four candidates,
  \<open>recommend\<close> returns four records, not three.
\<close>

theorem default_top_n_counterexample:
  "length (fst (recommend_default broken_matcher hash_a four_products unconstrained_requirement)) = 4
   \<and> length (fst (recommend broken_matcher hash_a four_products unconstrained_requirement 3)) = 3"
  by code_simp

text \<open>
  C4. Two runs on the same catalog and requirement, in two interpreter processes: the
  power line of the explanation lists what was found in the iteration order of a set of
  strings, which is not sorted before it is joined (the connectivity line is), so the two
  outputs differ.
\<close>

theorem power_explanation_depends_on_hash:
  "map (\<lambda>x. Explanation_Details x ! 3)
       (fst (recommend broken_matcher hash_a [gateway] power_requirement 3)) =
     [''Power requirement(s) met: Found ''
        @ py_join '', '' [power_entry ''solar'' ''Solar Power'',
                         power_entry ''battery'' ''Battery Powered'']]
   \<and> map (\<lambda>x. Explanation_Details x ! 3)
       (fst (recommend broken_matcher hash_b [gateway] power_requirement 3)) =
     [''Power requirement(s) met: Found ''
        @ py_join '', '' [power_entry ''battery'' ''Battery Powered'',
                         power_entry ''solar'' ''Solar Power'']]
   \<and> fst (recommend broken_matcher hash_a [gateway] power_requirement 3)
       \<noteq> fst (recommend broken_matcher hash_b [gateway] power_requirement 3)"
  by code_simp

subsection \<open>Normalised text\<close>

lemma lower_char_idem: "lower_char (lower_char c) = lower_char c"
  by (simp add: lower_char_def is_upper_char_def Let_def)

lemma is_space_lower_char: "is_space_char (lower_char c) = is_space_char c"
  by (simp add: lower_char_def is_upper_char_def is_space_char_def Let_def)

lemma lower_char_space: "is_space_char c \<Longrightarrow> lower_char c = c"
  by (auto simp add: lower_char_def is_upper_char_def is_space_char_def Let_def)

lemma is_space_blank: "is_space_char (CHR '' '')"
  by (simp add: is_space_char_def)

lemma py_lower_idem: "py_lower (py_lower s) = py_lower s"
  by (simp add: py_lower_def lower_char_idem)

lemma dropWhile_space_lower:
  "dropWhile is_space_char (py_lower s) = py_lower (dropWhile is_space_char s)"
  by (induction s) (simp_all add: py_lower_def is_space_lower_char)

lemma py_strip_lower: "py_strip (py_lower s) = py_lower (py_strip s)"
proof -
  have r: "rev (py_lower t) = py_lower (rev t)" for t
    by (simp add: py_lower_def rev_map)
  show ?thesis
    by (simp add: py_strip_def dropWhile_space_lower r)
qed

lemma sub_spaces_lower: "sub_spaces b (py_lower s) = py_lower (sub_spaces b s)"
proof (induction s arbitrary: b)
  case Nil
  show ?case by (simp add: py_lower_def)
next
  case (Cons c cs)
  have blank: "lower_char (CHR '' '') = CHR '' ''"
    by (rule lower_char_space) (rule is_space_blank)
  show ?case
    using Cons.IH [of True] Cons.IH [of False]
    by (simp add: py_lower_def is_space_lower_char blank)
qed

lemma collapsed_sub_spaces: "collapsed b (sub_spaces b s)"
  by (induction s arbitrary: b) (simp_all add: is_space_blank)

lemma sub_spaces_collapsed: "collapsed b s \<Longrightarrow> sub_spaces b s = s"
  by (induction s arbitrary: b) (auto split: if_splits)

lemma collapsed_weaken: "collapsed b s \<Longrightarrow> collapsed False s"
  by (cases s) (auto split: if_splits)

lemma collapsed_dropWhile: "collapsed b s \<Longrightarrow> collapsed False (dropWhile is_space_char s)"
proof (induction s arbitrary: b)
  case Nil
  show ?case by simp
next
  case (Cons c cs)
  show ?case
  proof (cases "is_space_char c")
    case True
    with Cons.prems have "collapsed True cs" by simp
    then show ?thesis using True Cons.IH by simp
  next
    case False
    with Cons.prems show ?thesis by simp
  qed
qed

lemma collapsed_prefix: "collapsed b (xs @ ys) \<Longrightarrow> collapsed b xs"
  by (induction xs arbitrary: b) (auto split: if_splits)

lemma collapsed_py_strip: "collapsed False s \<Longrightarrow> collapsed False (py_strip s)"
proof -
  assume c: "collapsed False s"
  let ?y = "dropWhile is_space_char s"
  have y: "collapsed False ?y" using c by (rule collapsed_dropWhile)
  have "?y = rev (dropWhile is_space_char (rev ?y)) @ rev (takeWhile is_space_char (rev ?y))"
    by (metis rev_append rev_rev_ident takeWhile_dropWhile_id)
  then have "collapsed False (rev (dropWhile is_space_char (rev ?y))
      @ rev (takeWhile is_space_char (rev ?y)))"
    using y by simp
  then have "collapsed False (rev (dropWhile is_space_char (rev ?y)))"
    by (rule collapsed_prefix)
  then show ?thesis by (simp add: py_strip_def)
qed

lemma dropWhile_id_iff: "dropWhile P xs = xs \<longleftrightarrow> (xs = [] \<or> \<not> P (hd xs))"
  by (cases xs) (auto simp: dropWhile_eq_Cons_conv)

lemma strip_back_keeps_front:
  assumes "y = [] \<or> \<not> P (hd y)"
  shows "rev (dropWhile P (rev y)) = [] \<or> \<not> P (hd (rev (dropWhile P (rev y))))"
proof (cases y)
  case Nil
  then show ?thesis by simp
next
  case (Cons a as)
  with assms have na: "\<not> P a" by simp
  have "rev y = rev as @ [a]" using Cons by simp
  then have "dropWhile P (rev y) = dropWhile P (rev as) @ [a]"
    using na by (simp add: dropWhile_append)
  then have "rev (dropWhile P (rev y)) = a # rev (dropWhile P (rev as))"
    by simp
  then show ?thesis using na by simp
qed

lemma py_strip_idem: "py_strip (py_strip s) = py_strip s"
proof -
  define y where "y = dropWhile is_space_char s"
  define z where "z = dropWhile is_space_char (rev y)"
  have hy: "y = [] \<or> \<not> is_space_char (hd y)"
    unfolding y_def using hd_dropWhile [of is_space_char s] by blast
  have hz: "z = [] \<or> \<not> is_space_char (hd z)"
    unfolding z_def using hd_dropWhile [of is_space_char "rev y"] by blast
  have front: "rev z = [] \<or> \<not> is_space_char (hd (rev z))"
    unfolding z_def using hy by (rule strip_back_keeps_front)
  have d1: "dropWhile is_space_char (rev z) = rev z"
    using front by (simp add: dropWhile_id_iff)
  have d2: "dropWhile is_space_char z = z"
    using hz by (simp add: dropWhile_id_iff)
  have "py_strip s = rev z"
    by (simp add: py_strip_def z_def y_def)
  moreover have "py_strip (rev z) = rev z"
    by (simp add: py_strip_def d1 d2)
  ultimately show ?thesis by simp
qed

lemma normalize_text_idem: "normalize_text (normalize_text s) = normalize_text s"
proof -
  let ?u = "py_strip (sub_spaces False s)"
  have c: "collapsed False ?u"
    by (rule collapsed_py_strip) (rule collapsed_sub_spaces)
  have "normalize_text (normalize_text s) = py_lower (py_strip (sub_spaces False (py_lower ?u)))"
    by (simp add: normalize_text_def)
  also have "\<dots> = py_lower (py_lower (py_strip (sub_spaces False ?u)))"
    by (simp add: sub_spaces_lower py_strip_lower)
  also have "\<dots> = py_lower (py_strip ?u)"
    using c by (simp add: py_lower_idem sub_spaces_collapsed)
  also have "\<dots> = py_lower ?u"
    by (simp add: py_strip_idem)
  finally show ?thesis by (simp add: normalize_text_def)
qed

lemma astype_str_idem: "astype_str (astype_str c) = astype_str c"
  by (cases c) (simp_all add: astype_str_def)

lemma cast_features_idem:
  "map (\<lambda>f. f\<lparr>Feature_ID := astype_str (Feature_ID f)\<rparr>)
     (map (\<lambda>f. f\<lparr>Feature_ID := astype_str (Feature_ID f)\<rparr>) fs)
   = map (\<lambda>f. f\<lparr>Feature_ID := astype_str (Feature_ID f)\<rparr>) fs"
  by (simp add: comp_def astype_str_idem)

lemma cast_features_strings:
  assumes "\<forall>f \<in> set fs. \<exists>s. Feature_ID f = StrCell s"
  shows "map (\<lambda>f. f\<lparr>Feature_ID := astype_str (Feature_ID f)\<rparr>) fs = fs"
proof -
  have "f\<lparr>Feature_ID := astype_str (Feature_ID f)\<rparr> = f" if "f \<in> set fs" for f
  proof -
    from that assms obtain s where "Feature_ID f = StrCell s" by blast
    then show ?thesis by (simp add: astype_str_def)
  qed
  then show ?thesis by (simp add: map_idI)
qed

lemma build_product_corpus_cases:
  "snd (build_product_corpus p fs m) = fs
   \<or> (fs \<noteq> [] \<and> snd (build_product_corpus p fs m)
        = map (\<lambda>f. f\<lparr>Feature_ID := astype_str (Feature_ID f)\<rparr>) fs)"
  by (simp add: build_product_corpus_def Let_def)

lemma build_product_corpus_again:
  "build_product_corpus p (snd (build_product_corpus p fs m)) m = build_product_corpus p fs m"
proof (cases "fs \<noteq> [] \<and> m \<noteq> [] \<and> Product_ID p \<noteq> []
    \<and> map map_Feature_ID (filter (\<lambda>r. map_Product_ID r = StrCell (Product_ID p)) m) \<noteq> []")
  case True
  then have s: "snd (build_product_corpus p fs m)
      = map (\<lambda>f. f\<lparr>Feature_ID := astype_str (Feature_ID f)\<rparr>) fs"
    by (simp add: build_product_corpus_def Let_def)
  have ne: "map (\<lambda>f. f\<lparr>Feature_ID := astype_str (Feature_ID f)\<rparr>) fs \<noteq> []"
    using True by simp
  show ?thesis
    unfolding s
    using True ne
    by (simp add: build_product_corpus_def Let_def cast_features_idem del: map_map)
next
  case False
  then have "snd (build_product_corpus p fs m) = fs"
    by (auto simp add: build_product_corpus_def Let_def)
  then show ?thesis by simp
qed

lemma build_product_corpus_normal:
  "normalize_text (fst (build_product_corpus p fs m)) = fst (build_product_corpus p fs m)"
  by (simp add: build_product_corpus_def Let_def normalize_text_idem)

lemma build_requirement_query_normal:
  "normalize_text (build_requirement_query r) = build_requirement_query r"
  by (simp add: build_requirement_query_def Let_def normalize_text_idem)

section \<open>The corpus builder\<close>

text \<open>
  C9, as the code has it. \<open>build_requirement_query\<close> only reads its argument and
  \<open>build_product_corpus\<close> only reads the product row and the mapping table. The features
  table is left as it was when its \<open>Feature_ID\<close> column holds strings (as it does after
  \<open>preprocess_data\<close>); otherwise at most that column is rewritten, to strings. A second
  call on the tables the first call left returns the same text and leaves them as they
  are, and the text of either function is normalised: normalising it again changes
  nothing.
\<close>

theorem corpus_builders:
  "((\<forall>f \<in> set features_df. \<exists>s. Feature_ID f = StrCell s) \<longrightarrow>
       snd (build_product_corpus p features_df m) = features_df)
   \<and> map Feature_Name (snd (build_product_corpus p features_df m)) = map Feature_Name features_df
   \<and> map Feature_Description (snd (build_product_corpus p features_df m))
       = map Feature_Description features_df
   \<and> build_product_corpus p (snd (build_product_corpus p features_df m)) m
       = build_product_corpus p features_df m
   \<and> normalize_text (fst (build_product_corpus p features_df m))
       = fst (build_product_corpus p features_df m)
   \<and> normalize_text (build_requirement_query r) = build_requirement_query r"
proof -
  have a: "(\<forall>f \<in> set features_df. \<exists>s. Feature_ID f = StrCell s) \<longrightarrow>
       snd (build_product_corpus p features_df m) = features_df"
    using build_product_corpus_cases [of p features_df m] cast_features_strings [of features_df]
    by auto
  have b: "map Feature_Name (snd (build_product_corpus p features_df m))
      = map Feature_Name features_df"
    using build_product_corpus_cases [of p features_df m] by (auto simp add: comp_def)
  have c: "map Feature_Description (snd (build_product_corpus p features_df m))
      = map Feature_Description features_df"
    using build_product_corpus_cases [of p features_df m] by (auto simp add: comp_def)
  from a b c build_product_corpus_again [of p features_df m]
    build_product_corpus_normal [of p features_df m] build_requirement_query_normal [of r]
  show ?thesis by blast
qed

lemma string_tables:
  "\<forall>f \<in> set string_features. \<exists>s. Feature_ID f = StrCell s"
  by (simp add: string_features_def)

theorem corpus_builders_witness:
  "map Feature_ID string_features = [StrCell ''7'']
   \<and> snd (build_product_corpus gateway string_features string_mapping) = string_features"
proof -
  have "snd (build_product_corpus gateway string_features string_mapping) = string_features"
    using corpus_builders [where features_df = string_features and p = gateway
        and m = string_mapping, THEN conjunct1] string_tables
    by blast
  moreover have "map Feature_ID string_features = [StrCell ''7'']"
    by (simp add: string_features_def)
  ultimately show ?thesis by simp
qed

text \<open>
  C9 as stated fails on a features table whose ids are numbers: the call rewrites the
  \<open>Feature_ID\<close> column of the table it was given.
\<close>

theorem corpus_builder_counterexample:
  "map Feature_ID numeric_features = [IntCell 7]
   \<and> map Feature_ID (snd (build_product_corpus gateway numeric_features numeric_mapping))
       = [StrCell ''7'']"
  by code_simp

end
